theory Spec2Isabelle
  imports Complex_Main "HOL-Library.AList" "HOL-Library.Multiset" "HOL-Library.Sublist"
begin

section \<open>Python values shared by the modules\<close>

text \<open>
  Exceptions are values. \<open>HTTPException\<close> is the web framework's exception carrying the
  response status and detail; \<open>EngineError\<close> stands for any exception raised inside an
  external library (data-frame reader, statistics engine, metrics client, splitter).
\<close>

datatype exn =
    HTTPException nat string
  | ValueError string
  | KeyError string
  | AttributeError string
  | ZeroDivisionError string
  | EngineError string

text \<open>Decimal rendering of integers, as an f-string does it.\<close>

definition digit_char :: "nat \<Rightarrow> char" where
  "digit_char d = ''0123456789'' ! d"

fun str_nat :: "nat \<Rightarrow> string" where
  "str_nat n = (if n < 10 then [digit_char n] else str_nat (n div 10) @ [digit_char (n mod 10)])"

definition str_int :: "int \<Rightarrow> string" where
  "str_int i = (if i < 0 then CHR ''-'' # str_nat (nat (- i)) else str_nat (nat i))"

text \<open>
  \<^verbatim>\<open>str(e)\<close>: the framework renders its exception as status and detail, a
  \<^verbatim>\<open>KeyError\<close> as the quoted key, the others as their message.
\<close>

fun str_exn :: "exn \<Rightarrow> string" where
  "str_exn (HTTPException code detail) = str_nat code @ '': '' @ detail"
| "str_exn (ValueError msg) = msg"
| "str_exn (KeyError k) = [CHR 0x27] @ k @ [CHR 0x27]"
| "str_exn (AttributeError msg) = msg"
| "str_exn (ZeroDivisionError msg) = msg"
| "str_exn (EngineError msg) = msg"

text \<open>\<^verbatim>\<open>s.endswith(suffix)\<close>.\<close>

definition endswith :: "string \<Rightarrow> string \<Rightarrow> bool" where
  "endswith s sfx = suffix sfx s"

text \<open>\<^verbatim>\<open>s.startswith(pre)\<close>.\<close>

definition startswith :: "string \<Rightarrow> string \<Rightarrow> bool" where
  "startswith s pre = prefix pre s"

text \<open>\<^verbatim>\<open>d.get(key, default)\<close> on an optional field.\<close>

definition dict_get :: "'a option \<Rightarrow> 'a \<Rightarrow> 'a" where
  "dict_get field dflt = (case field of None \<Rightarrow> dflt | Some v \<Rightarrow> v)"

section \<open>Statistical Model Monitor (monitoring/model\_monitor.py)\<close>

text \<open>
  The dictionaries built by the drift detector and by the performance check are modelled
  as records whose fields are optional: a field is \<open>None\<close> when the key is absent from
  the dictionary, which is what \<^verbatim>\<open>dict.get(key, default)\<close> tests. Python floats are
  modelled as reals.
\<close>

record drift_results =
  dataset_drift :: "bool option"
  drift_share :: "real option"
  drifted_columns :: "string list"

text \<open>
  The scores of the quality report of the statistics engine that the degradation is
  computed from: F1 for classification, R-squared for regression, for the reference and for
  the current data.
\<close>

record quality_metrics =
  reference_f1 :: "real option"
  current_f1 :: "real option"
  reference_r2 :: "real option"
  current_r2 :: "real option"

record perf_results =
  performance_degradation :: "real option"

record monitoring_results =
  timestamp :: string
  res_model_type :: string
  samples_analyzed :: nat
  data_drift :: "drift_results option"
  model_performance :: "perf_results option"
  health_status :: "string option"
  report_path :: "string option"

text \<open>A data frame, as far as the monitor looks at it: its column names and its rows.\<close>

record 'row dataframe =
  df_columns :: "string list"
  df_rows :: "'row list"

text \<open>
  The external libraries the monitor and the service call: the parsed result of the
  drift detector's report, the quality report, the data-frame readers and constructor,
  the metrics client, and the clock (the current time in ISO format and as the compact
  stamp used in file names). Each call either raises or returns. The detector and the
  quality report compare a monitor's reference data, their first data frame, with the
  current data.
\<close>

record ('row, 'exp) engine =
  detect_data_drift ::
    "'row dataframe \<Rightarrow> 'row dataframe \<Rightarrow> string list option \<Rightarrow> exn + drift_results"
  quality_report :: "string \<Rightarrow> 'row dataframe \<Rightarrow> 'row dataframe \<Rightarrow> exn + quality_metrics"
  read_csv :: "string \<Rightarrow> exn + 'row dataframe"
  read_parquet :: "string \<Rightarrow> exn + 'row dataframe"
  frame_of_records :: "'row list \<Rightarrow> exn + 'row dataframe"
  new_exporter :: "string \<Rightarrow> string \<Rightarrow> exn + 'exp"
  update_from_monitoring_results :: "'exp \<Rightarrow> monitoring_results \<Rightarrow> exn + 'exp"
  update_drift_metrics :: "'exp \<Rightarrow> drift_results \<Rightarrow> exn + 'exp"
  utcnow :: string
  utcnow_stamp :: string

record 'row model_monitor =
  reference_data :: "'row dataframe"
  model_type :: string
  target_column :: string
  prediction_column :: string
  feature_columns :: "string list"
  monitoring_history :: "monitoring_results list"

text \<open>
  The constructor. An explicit, non-empty feature list is taken as given; otherwise the
  features are the reference columns other than target and prediction. Building the
  column mapping reads \<^verbatim>\<open>reference_data[c]\<close> for each feature, which raises
  \<^verbatim>\<open>KeyError\<close> at the first feature that is not a column.
\<close>

definition ModelMonitor_init ::
  "'row dataframe \<Rightarrow> string \<Rightarrow> string \<Rightarrow> string \<Rightarrow> string list option \<Rightarrow> exn + 'row model_monitor" where
  "ModelMonitor_init ref_data mtype target prediction features =
     (let fcols = (case features of
                     Some fs \<Rightarrow> if fs \<noteq> [] then fs
                               else filter (\<lambda>c. c \<notin> {target, prediction}) (df_columns ref_data)
                   | None \<Rightarrow> filter (\<lambda>c. c \<notin> {target, prediction}) (df_columns ref_data))
      in case List.find (\<lambda>c. c \<notin> set (df_columns ref_data)) fcols of
           Some c \<Rightarrow> Inl (KeyError c)
         | None \<Rightarrow> Inr \<lparr>reference_data = ref_data, model_type = mtype, target_column = target,
                         prediction_column = prediction, feature_columns = fcols,
                         monitoring_history = []\<rparr>)"

text \<open>
  \<^verbatim>\<open>_calc_degradation\<close>: the percentage by which the current score fell below the
  reference score, 0 when the reference is 0.
\<close>

definition calc_degradation :: "real \<Rightarrow> real \<Rightarrow> real" where
  "calc_degradation ref current = (if ref = 0 then 0 else ((ref - current) / ref) * 100)"

text \<open>
  \<^verbatim>\<open>_check_model_performance\<close>: runs the quality report for the model type and
  computes the degradation on F1 (classification) or R-squared (regression), a missing score
  counting as 0. The other entries of the block are copies of the report's numbers and
  are not read by the health policy.
\<close>

definition check_model_performance ::
  "('row, 'exp) engine \<Rightarrow> 'row model_monitor \<Rightarrow> 'row dataframe \<Rightarrow> exn + perf_results" where
  "check_model_performance eng self current_data =
     (case quality_report eng (model_type self) (reference_data self) current_data of
        Inl e \<Rightarrow> Inl e
      | Inr metrics \<Rightarrow>
          if model_type self = ''classification''
          then Inr \<lparr>performance_degradation =
                 Some (calc_degradation (dict_get (reference_f1 metrics) 0) (dict_get (current_f1 metrics) 0))\<rparr>
          else Inr \<lparr>performance_degradation =
                 Some (calc_degradation (dict_get (reference_r2 metrics) 0) (dict_get (current_r2 metrics) 0))\<rparr>)"

text \<open>
  \<^verbatim>\<open>_determine_health\<close>. \<^verbatim>\<open>results.get("data_drift", {})\<close> and
  \<^verbatim>\<open>results.get("model_performance", {})\<close> give the empty dictionary when the block is
  absent, so every later \<^verbatim>\<open>get\<close> falls to its default. The drift branch has no
  \<^verbatim>\<open>else\<close>: when drift is reported with a share of at most 0.3 control falls through
  to the degradation check, which is \<open>by_degradation\<close> here.
\<close>

definition determine_health :: "monitoring_results \<Rightarrow> string" where
  "determine_health results =
     (let drift = dict_get (data_drift results)
                    \<lparr>dataset_drift = None, drift_share = None, drifted_columns = []\<rparr>;
          perf = dict_get (model_performance results) \<lparr>performance_degradation = None\<rparr>;
          by_degradation =
            (let degradation = dict_get (performance_degradation perf) 0
             in if degradation > 20 then ''critical''
                else if degradation > 10 then ''warning''
                else ''healthy'')
      in if dict_get (dataset_drift drift) False
         then (if dict_get (drift_share drift) 0 > 0.5 then ''critical''
               else if dict_get (drift_share drift) 0 > 0.3 then ''warning''
               else by_degradation)
         else by_degradation)"

text \<open>
  \<^verbatim>\<open>run_monitoring\<close>. The monitor is returned with the result appended to its
  history; when the detector or the performance check raises, the exception leaves
  the method before the history is touched.
\<close>

definition run_monitoring ::
  "('row, 'exp) engine \<Rightarrow> 'row model_monitor \<Rightarrow> 'row dataframe \<Rightarrow> bool
     \<Rightarrow> (exn + monitoring_results) \<times> 'row model_monitor" where
  "run_monitoring eng self current_data include_performance =
     (case detect_data_drift eng (reference_data self) current_data
             (Some (feature_columns self)) of
        Inl e \<Rightarrow> (Inl e, self)
      | Inr drift \<Rightarrow>
         (case (if include_performance \<and> target_column self \<in> set (df_columns current_data)
                then map_sum id Some (check_model_performance eng self current_data)
                else Inr None) of
            Inl e \<Rightarrow> (Inl e, self)
          | Inr perf \<Rightarrow>
             (let results = \<lparr>timestamp = utcnow eng, res_model_type = model_type self,
                              samples_analyzed = length (df_rows current_data),
                              data_drift = Some drift, model_performance = perf,
                              health_status = None, report_path = None\<rparr>;
                  results = results\<lparr>health_status := Some (determine_health results)\<rparr>
              in (Inr results, self\<lparr>monitoring_history := monitoring_history self @ [results]\<rparr>))))"

text \<open>
  The health policy in the words of the specification: five rules over the drift flag,
  the drift share and the degradation percentage, evaluated in order.
\<close>

datatype health_rule = Rule1 | Rule2 | Rule3 | Rule4 | Rule5

fun rule_applies :: "health_rule \<Rightarrow> bool \<Rightarrow> real \<Rightarrow> real \<Rightarrow> bool" where
  "rule_applies Rule1 drift share degradation = (drift \<and> share > 0.5)"
| "rule_applies Rule2 drift share degradation = (drift \<and> share > 0.3)"
| "rule_applies Rule3 drift share degradation = (degradation > 20)"
| "rule_applies Rule4 drift share degradation = (degradation > 10)"
| "rule_applies Rule5 drift share degradation = True"

fun rule_verdict :: "health_rule \<Rightarrow> string" where
  "rule_verdict Rule1 = ''critical''"
| "rule_verdict Rule2 = ''warning''"
| "rule_verdict Rule3 = ''critical''"
| "rule_verdict Rule4 = ''warning''"
| "rule_verdict Rule5 = ''healthy''"

definition spec_health_policy :: "bool \<Rightarrow> real \<Rightarrow> real \<Rightarrow> string option" where
  "spec_health_policy drift share degradation =
     map_option rule_verdict
       (List.find (\<lambda>r. rule_applies r drift share degradation) [Rule1, Rule2, Rule3, Rule4, Rule5])"

text \<open>The values the policy reads from a composed result, with the defaults of the code.\<close>

definition result_drift :: "monitoring_results \<Rightarrow> bool" where
  "result_drift r = (case data_drift r of None \<Rightarrow> False | Some d \<Rightarrow> dict_get (dataset_drift d) False)"

definition result_share :: "monitoring_results \<Rightarrow> real" where
  "result_share r = (case data_drift r of None \<Rightarrow> 0 | Some d \<Rightarrow> dict_get (drift_share d) 0)"

definition result_degradation :: "monitoring_results \<Rightarrow> real" where
  "result_degradation r =
     (case model_performance r of None \<Rightarrow> 0 | Some p \<Rightarrow> dict_get (performance_degradation p) 0)"

section \<open>Monitoring HTTP service (monitoring/monitoring\_service.py)\<close>

text \<open>
  The three module-level dictionaries. A Python dictionary keeps its keys in insertion
  order, and \<^verbatim>\<open>_find_model_key\<close> depends on that order, so each is an association
  list: \<^verbatim>\<open>d[k] = v\<close> is \<open>AList.update\<close> (in place when the key is there, appended
  otherwise), \<^verbatim>\<open>del d[k]\<close> is \<open>AList.delete\<close>, \<^verbatim>\<open>d[k]\<close> is \<open>map_of\<close> with
  \<^verbatim>\<open>KeyError\<close> for a missing key.
\<close>

record ('row, 'exp) service_state =
  monitors :: "(string \<times> 'row model_monitor) list"
  exporters :: "(string \<times> 'exp) list"
  reference_datasets :: "(string \<times> 'row dataframe) list"

record register_model_request =
  rm_model_name :: string
  rm_model_version :: string
  rm_model_type :: string
  rm_target_column :: string
  rm_prediction_column :: string
  rm_feature_columns :: "string list option"
  rm_reference_data_path :: string

record 'row monitoring_request =
  mr_model_name :: string
  mr_current_data_path :: "string option"
  mr_current_data :: "'row list option"
  mr_include_performance :: bool
  mr_generate_report :: bool

record 'row drift_check_request =
  dc_model_name :: string
  dc_current_data :: "'row list"
  dc_columns :: "string list option"

datatype response =
    Registered string nat "string list"
  | MonitoringResponse monitoring_results
  | DriftResponse drift_results
  | HistoryResponse string "monitoring_results list"
  | Unregistered string

text \<open>Sequencing of calls that may raise.\<close>

definition bind_exn :: "exn + 'a \<Rightarrow> ('a \<Rightarrow> exn + 'b) \<Rightarrow> exn + 'b" where
  "bind_exn m f = (case m of Inl e \<Rightarrow> Inl e | Inr v \<Rightarrow> f v)"

text \<open>
  \<^verbatim>\<open>except Exception as e: raise HTTPException(500, str(e)) from e\<close>. The handler
  catches every exception raised in the \<^verbatim>\<open>try\<close> block; \<^verbatim>\<open>HTTPException\<close> is a
  subclass of \<^verbatim>\<open>Exception\<close>, so it is caught as well.
\<close>

definition except_500 :: "exn + 'a \<Rightarrow> exn + 'a" where
  "except_500 r = (case r of Inl e \<Rightarrow> Inl (HTTPException 500 (str_exn e)) | Inr v \<Rightarrow> Inr v)"

text \<open>
  The status line the framework sends: the status of an \<^verbatim>\<open>HTTPException\<close>, 500 for any
  other exception that leaves the handler, 200 for a returned body.
\<close>

fun http_status :: "exn + response \<Rightarrow> nat" where
  "http_status (Inr body) = 200"
| "http_status (Inl (HTTPException code detail)) = code"
| "http_status (Inl e) = 500"

definition dict_lookup :: "(string \<times> 'v) list \<Rightarrow> string \<Rightarrow> exn + 'v" where
  "dict_lookup d k = (case map_of d k of None \<Rightarrow> Inl (KeyError k) | Some v \<Rightarrow> Inr v)"

text \<open>\<^verbatim>\<open>_find_model_key\<close>.\<close>

definition find_model_key :: "(string \<times> 'v) list \<Rightarrow> string \<Rightarrow> string option" where
  "find_model_key mons model_name =
     (if model_name \<in> set (map fst mons) then Some model_name
      else List.find (\<lambda>key. startswith key (model_name @ '':'')) (map fst mons))"

text \<open>\<^verbatim>\<open>if not model_key\<close>: true for \<^verbatim>\<open>None\<close> and for the empty string.\<close>

definition not_model_key :: "string option \<Rightarrow> bool" where
  "not_model_key k = (case k of None \<Rightarrow> True | Some s \<Rightarrow> s = [])"

definition model_not_found :: "string \<Rightarrow> exn" where
  "model_not_found model_name = HTTPException 404 (''Model not found: '' @ model_name)"

text \<open>\<^verbatim>\<open>POST /models/register\<close>: the body of the \<^verbatim>\<open>try\<close> block, then the handler.\<close>

definition register_model_body ::
  "('row, 'exp) engine \<Rightarrow> ('row, 'exp) service_state \<Rightarrow> register_model_request
     \<Rightarrow> exn + (response \<times> ('row, 'exp) service_state)" where
  "register_model_body eng st request =
     bind_exn
       (if endswith (rm_reference_data_path request) ''.csv''
          then read_csv eng (rm_reference_data_path request)
        else if endswith (rm_reference_data_path request) ''.parquet''
          then read_parquet eng (rm_reference_data_path request)
        else Inl (HTTPException 400 ''Unsupported file format''))
       (\<lambda>ref_data.
     bind_exn
       (ModelMonitor_init ref_data (rm_model_type request) (rm_target_column request)
          (rm_prediction_column request) (rm_feature_columns request))
       (\<lambda>monitor.
     bind_exn (new_exporter eng (rm_model_name request) (rm_model_version request))
       (\<lambda>exporter.
          let model_key = rm_model_name request @ '':'' @ rm_model_version request
          in Inr (Registered model_key (length (df_rows ref_data)) (feature_columns monitor),
                  st\<lparr>monitors := AList.update model_key monitor (monitors st),
                     exporters := AList.update model_key exporter (exporters st),
                     reference_datasets := AList.update model_key ref_data (reference_datasets st)\<rparr>))))"

definition register_model ::
  "('row, 'exp) engine \<Rightarrow> ('row, 'exp) service_state \<Rightarrow> register_model_request
     \<Rightarrow> (exn + response) \<times> ('row, 'exp) service_state" where
  "register_model eng st request =
     (case except_500 (register_model_body eng st request) of
        Inl e \<Rightarrow> (Inl e, st)
      | Inr (body, st') \<Rightarrow> (Inr body, st'))"

text \<open>
  \<^verbatim>\<open>POST /monitoring/run\<close>. Loading the current data: a non-empty path wins, then a
  non-empty inline record list, otherwise the handler raises the 400 exception, inside
  the \<^verbatim>\<open>try\<close> block.
\<close>

definition load_current_data ::
  "('row, 'exp) engine \<Rightarrow> 'row monitoring_request \<Rightarrow> exn + 'row dataframe" where
  "load_current_data eng request =
     (case mr_current_data_path request of
        Some path \<Rightarrow>
          if path \<noteq> [] then
            (if endswith path ''.csv'' then read_csv eng path else read_parquet eng path)
          else (case mr_current_data request of
                  Some rows \<Rightarrow> if rows \<noteq> [] then frame_of_records eng rows
                               else Inl (HTTPException 400 ''No current data provided'')
                | None \<Rightarrow> Inl (HTTPException 400 ''No current data provided''))
      | None \<Rightarrow>
          (case mr_current_data request of
             Some rows \<Rightarrow> if rows \<noteq> [] then frame_of_records eng rows
                          else Inl (HTTPException 400 ''No current data provided'')
           | None \<Rightarrow> Inl (HTTPException 400 ''No current data provided'')))"

definition report_path_of :: "string \<Rightarrow> string \<Rightarrow> string" where
  "report_path_of model_key stamp =
     ''/tmp/reports/'' @ map (\<lambda>c. if c = CHR '':'' then CHR ''_'' else c) model_key
       @ ''_'' @ stamp @ ''.html''"

text \<open>
  The \<^verbatim>\<open>try\<close> block of the endpoint. The monitor and the exporter are objects shared
  with the dictionaries, so what the block does to them is kept even when a later
  step raises; the block returns the outcome together with both. With
  \<^verbatim>\<open>generate_report\<close> the path is written into the result dictionary, which is the
  object already appended to the history. Writing the report itself is a background
  task and not part of the response.
\<close>

definition run_monitoring_try ::
  "('row, 'exp) engine \<Rightarrow> string \<Rightarrow> 'row model_monitor \<Rightarrow> 'exp \<Rightarrow> 'row monitoring_request
     \<Rightarrow> (exn + response) \<times> 'row model_monitor \<times> 'exp" where
  "run_monitoring_try eng model_key monitor exporter request =
     (case load_current_data eng request of
        Inl e \<Rightarrow> (Inl e, monitor, exporter)
      | Inr current_data \<Rightarrow>
         (case run_monitoring eng monitor current_data (mr_include_performance request) of
            (Inl e, monitor') \<Rightarrow> (Inl e, monitor', exporter)
          | (Inr results, monitor') \<Rightarrow>
             (case update_from_monitoring_results eng exporter results of
                Inl e \<Rightarrow> (Inl e, monitor', exporter)
              | Inr exporter' \<Rightarrow>
                 if mr_generate_report request then
                   (let results' = results\<lparr>report_path :=
                                      Some (report_path_of model_key (utcnow_stamp eng))\<rparr>
                    in (Inr (MonitoringResponse results'),
                        monitor'\<lparr>monitoring_history :=
                                   butlast (monitoring_history monitor') @ [results']\<rparr>,
                        exporter'))
                 else (Inr (MonitoringResponse results), monitor', exporter'))))"

definition svc_run_monitoring ::
  "('row, 'exp) engine \<Rightarrow> ('row, 'exp) service_state \<Rightarrow> 'row monitoring_request
     \<Rightarrow> (exn + response) \<times> ('row, 'exp) service_state" where
  "svc_run_monitoring eng st request =
     (let model_key = find_model_key (monitors st) (mr_model_name request)
      in if not_model_key model_key then (Inl (model_not_found (mr_model_name request)), st)
         else (case model_key of
                 None \<Rightarrow> (Inl (model_not_found (mr_model_name request)), st)
               | Some key \<Rightarrow>
                  (case dict_lookup (monitors st) key of
                     Inl e \<Rightarrow> (Inl e, st)
                   | Inr monitor \<Rightarrow>
                      (case dict_lookup (exporters st) key of
                         Inl e \<Rightarrow> (Inl e, st)
                       | Inr exporter \<Rightarrow>
                          (case run_monitoring_try eng key monitor exporter request of
                             (outcome, monitor', exporter') \<Rightarrow>
                               (except_500 outcome,
                                st\<lparr>monitors := AList.update key monitor' (monitors st),
                                   exporters := AList.update key exporter' (exporters st)\<rparr>))))))"

text \<open>
  \<^verbatim>\<open>POST /drift/check\<close>. The \<^verbatim>\<open>try\<close> block runs the drift detector of the resolved
  monitor, that is, against that monitor's reference data, and then updates the
  resolved exporter; it returns the outcome and the exporter.
\<close>

definition check_drift_try ::
  "('row, 'exp) engine \<Rightarrow> 'row model_monitor \<Rightarrow> 'exp \<Rightarrow> 'row drift_check_request
     \<Rightarrow> (exn + response) \<times> 'exp" where
  "check_drift_try eng monitor exporter request =
     (case bind_exn (frame_of_records eng (dc_current_data request))
             (\<lambda>current_data.
                detect_data_drift eng (reference_data monitor) current_data
                  (dc_columns request)) of
        Inl e \<Rightarrow> (Inl e, exporter)
      | Inr results \<Rightarrow>
         (case update_drift_metrics eng exporter results of
            Inl e \<Rightarrow> (Inl e, exporter)
          | Inr exporter' \<Rightarrow> (Inr (DriftResponse results), exporter')))"

definition check_drift ::
  "('row, 'exp) engine \<Rightarrow> ('row, 'exp) service_state \<Rightarrow> 'row drift_check_request
     \<Rightarrow> (exn + response) \<times> ('row, 'exp) service_state" where
  "check_drift eng st request =
     (let model_key = find_model_key (monitors st) (dc_model_name request)
      in if not_model_key model_key then (Inl (model_not_found (dc_model_name request)), st)
         else (case model_key of
                 None \<Rightarrow> (Inl (model_not_found (dc_model_name request)), st)
               | Some key \<Rightarrow>
                  (case dict_lookup (monitors st) key of
                     Inl e \<Rightarrow> (Inl e, st)
                   | Inr monitor \<Rightarrow>
                      (case dict_lookup (exporters st) key of
                         Inl e \<Rightarrow> (Inl e, st)
                       | Inr exporter \<Rightarrow>
                          (case check_drift_try eng monitor exporter request of
                             (outcome, exporter') \<Rightarrow>
                               (except_500 outcome,
                                st\<lparr>exporters := AList.update key exporter' (exporters st)\<rparr>))))))"

text \<open>\<^verbatim>\<open>GET /models/{model_name}/history\<close>.\<close>

definition get_monitoring_history ::
  "('row, 'exp) service_state \<Rightarrow> string \<Rightarrow> exn + response" where
  "get_monitoring_history st model_name =
     (let model_key = find_model_key (monitors st) model_name
      in if not_model_key model_key then Inl (model_not_found model_name)
         else (case model_key of
                 None \<Rightarrow> Inl (model_not_found model_name)
               | Some key \<Rightarrow>
                  bind_exn (dict_lookup (monitors st) key)
                    (\<lambda>monitor. Inr (HistoryResponse key (monitoring_history monitor)))))"

text \<open>\<^verbatim>\<open>DELETE /models/{model_name}\<close>.\<close>

definition unregister_model ::
  "('row, 'exp) service_state \<Rightarrow> string \<Rightarrow> (exn + response) \<times> ('row, 'exp) service_state" where
  "unregister_model st model_name =
     (let model_key = find_model_key (monitors st) model_name
      in if not_model_key model_key then (Inl (model_not_found model_name), st)
         else (case model_key of
                 None \<Rightarrow> (Inl (model_not_found model_name), st)
               | Some key \<Rightarrow>
                  if key \<notin> set (map fst (monitors st)) then (Inl (KeyError key), st)
                  else if key \<notin> set (map fst (exporters st))
                    then (Inl (KeyError key), st\<lparr>monitors := AList.delete key (monitors st)\<rparr>)
                  else if key \<notin> set (map fst (reference_datasets st))
                    then (Inl (KeyError key),
                          st\<lparr>monitors := AList.delete key (monitors st),
                             exporters := AList.delete key (exporters st)\<rparr>)
                  else (Inr (Unregistered key),
                        st\<lparr>monitors := AList.delete key (monitors st),
                           exporters := AList.delete key (exporters st),
                           reference_datasets := AList.delete key (reference_datasets st)\<rparr>)))"

text \<open>
  The service as a whole: it starts with three empty dictionaries, and every request
  to an endpoint that writes takes it to its next state.
\<close>

definition initial_state :: "('row, 'exp) service_state" where
  "initial_state = \<lparr>monitors = [], exporters = [], reference_datasets = []\<rparr>"

datatype 'row service_call =
    PostRegister register_model_request
  | PostRun "'row monitoring_request"
  | PostDrift "'row drift_check_request"
  | GetHistory string
  | DeleteModel string

fun service_step ::
  "('row, 'exp) engine \<Rightarrow> ('row, 'exp) service_state \<Rightarrow> 'row service_call
     \<Rightarrow> ('row, 'exp) service_state" where
  "service_step eng st (PostRegister request) = snd (register_model eng st request)"
| "service_step eng st (PostRun request) = snd (svc_run_monitoring eng st request)"
| "service_step eng st (PostDrift request) = snd (check_drift eng st request)"
| "service_step eng st (GetHistory model_name) = st"
| "service_step eng st (DeleteModel model_name) = snd (unregister_model st model_name)"

definition service_after ::
  "('row, 'exp) engine \<Rightarrow> 'row service_call list \<Rightarrow> ('row, 'exp) service_state" where
  "service_after eng calls = foldl (service_step eng) initial_state calls"

text \<open>
  What holds of the three dictionaries in every state the service reaches: they have
  the same keys, and no key is the empty string (a key is a name, a colon and a
  version).
\<close>

definition service_inv :: "('row, 'exp) service_state \<Rightarrow> bool" where
  "service_inv st \<longleftrightarrow>
     fst ` set (exporters st) = fst ` set (monitors st)
     \<and> fst ` set (reference_datasets st) = fst ` set (monitors st)
     \<and> [] \<notin> fst ` set (monitors st)"

text \<open>
  The resolution rule in the words of the specification: an exact key match wins;
  otherwise the first stored key whose prefix up to the colon equals the given name.
\<close>

definition resolves_to :: "string list \<Rightarrow> string \<Rightarrow> string \<Rightarrow> bool" where
  "resolves_to keys name key \<longleftrightarrow>
     (name \<in> set keys \<and> key = name)
     \<or> (name \<notin> set keys
         \<and> (\<exists>i<length keys. keys ! i = key \<and> (\<exists>rest. key = name @ '':'' @ rest)
                \<and> (\<forall>j<i. \<not> (\<exists>rest. keys ! j = name @ '':'' @ rest))))"

section \<open>Concrete engine, monitor and service state\<close>

text \<open>
  A small concrete setting used to run the definitions: an engine whose detector
  reports drift in 60 percent of the columns and whose quality report shows F1 falling
  from 0.8 to 0.6, a monitor over one feature, and a service with three registered
  models, the second of which has one result in its history.
\<close>

definition demo_frame :: "nat dataframe" where
  "demo_frame = \<lparr>df_columns = [''x'', ''target''], df_rows = [1, 2, 3]\<rparr>"

definition demo_engine :: "(nat, unit) engine" where
  "demo_engine =
     \<lparr>detect_data_drift = (\<lambda>r d cs. Inr \<lparr>dataset_drift = Some True, drift_share = Some 0.6,
                                        drifted_columns = []\<rparr>),
      quality_report = (\<lambda>t r d. Inr \<lparr>reference_f1 = Some 0.8, current_f1 = Some 0.6,
                                    reference_r2 = None, current_r2 = None\<rparr>),
      read_csv = (\<lambda>p. Inr demo_frame),
      read_parquet = (\<lambda>p. Inl (EngineError ''cannot read parquet'')),
      frame_of_records = (\<lambda>rs. Inr \<lparr>df_columns = [''x'', ''target''], df_rows = rs\<rparr>),
      new_exporter = (\<lambda>n v. Inr ()),
      update_from_monitoring_results = (\<lambda>e r. Inr e),
      update_drift_metrics = (\<lambda>e r. Inr e),
      utcnow = ''2024-01-01T00:00:00'', utcnow_stamp = ''20240101_000000''\<rparr>"

definition demo_monitor :: "nat model_monitor" where
  "demo_monitor =
     \<lparr>reference_data = \<lparr>df_columns = [''x'', ''target''], df_rows = [1, 2]\<rparr>,
      model_type = ''classification'', target_column = ''target'',
      prediction_column = ''prediction'', feature_columns = [''x''],
      monitoring_history = []\<rparr>"

definition demo_result :: monitoring_results where
  "demo_result =
     \<lparr>timestamp = ''2024-01-01T00:00:00'', res_model_type = ''classification'',
      samples_analyzed = 3,
      data_drift = Some \<lparr>dataset_drift = Some True, drift_share = Some 0.6, drifted_columns = []\<rparr>,
      model_performance = Some \<lparr>performance_degradation = Some 25\<rparr>,
      health_status = Some ''critical'', report_path = None\<rparr>"

definition demo_state :: "(nat, unit) service_state" where
  "demo_state =
     \<lparr>monitors = [(''a:1.0'', demo_monitor),
                   (''b:1.0'', demo_monitor\<lparr>monitoring_history := [demo_result]\<rparr>),
                   (''b:2.0'', demo_monitor)],
      exporters = [(''a:1.0'', ()), (''b:1.0'', ()), (''b:2.0'', ())],
      reference_datasets = [(''a:1.0'', demo_frame), (''b:1.0'', demo_frame), (''b:2.0'', demo_frame)]\<rparr>"

definition demo_register_json :: register_model_request where
  "demo_register_json =
     \<lparr>rm_model_name = ''m'', rm_model_version = ''1.0'', rm_model_type = ''classification'',
      rm_target_column = ''target'', rm_prediction_column = ''prediction'',
      rm_feature_columns = None, rm_reference_data_path = ''reference.json''\<rparr>"

definition demo_run_no_data :: "nat monitoring_request" where
  "demo_run_no_data =
     \<lparr>mr_model_name = ''a'', mr_current_data_path = None, mr_current_data = None,
      mr_include_performance = True, mr_generate_report = False\<rparr>"

section \<open>GitOps controller health (gitops/tests/test\_gitops\_controller\_health.py)\<close>

text \<open>
  The deployment object of the Kubernetes client, as far as the health check reads it.
  Every attribute the client declares optional is an \<open>option\<close>.
\<close>

record condition =
  cond_type :: string
  cond_status :: string
  cond_reason :: "string option"

record deployment_status =
  ready_replicas :: "int option"
  available_replicas :: "int option"
  conditions :: "condition list option"

record deployment_spec =
  replicas :: "int option"

record deployment =
  dep_spec :: "deployment_spec option"
  dep_status :: "deployment_status option"

text \<open>\<^verbatim>\<open>x or d\<close> on an optional integer: \<open>d\<close> when \<open>x\<close> is \<^verbatim>\<open>None\<close> and also when it is 0.\<close>

definition int_or :: "int option \<Rightarrow> int \<Rightarrow> int" where
  "int_or x d = (case x of None \<Rightarrow> d | Some n \<Rightarrow> if n = 0 then d else n)"

text \<open>An optional string inside an f-string.\<close>

definition str_opt :: "string option \<Rightarrow> string" where
  "str_opt s = (case s of None \<Rightarrow> ''None'' | Some v \<Rightarrow> v)"

text \<open>The loop over the conditions: it returns at the first condition that fails.\<close>

fun check_conditions :: "condition list \<Rightarrow> (bool \<times> string) option" where
  "check_conditions [] = None"
| "check_conditions (c # cs) =
     (if cond_type c = ''Available'' \<and> cond_status c \<noteq> ''True''
        then Some (False, ''Deployment not available: '' @ str_opt (cond_reason c))
      else if cond_type c = ''Progressing'' \<and> cond_status c \<noteq> ''True''
        then Some (False, ''Deployment not progressing: '' @ str_opt (cond_reason c))
      else check_conditions cs)"

text \<open>
  \<^verbatim>\<open>check_deployment_health\<close>. The status is tested before the spec is read; reading
  \<^verbatim>\<open>spec.replicas\<close> of a deployment without spec raises \<^verbatim>\<open>AttributeError\<close>.
\<close>

definition check_deployment_health :: "deployment option \<Rightarrow> exn + (bool \<times> string)" where
  "check_deployment_health deployment =
     (case deployment of
        None \<Rightarrow> Inr (False, ''Deployment not found'')
      | Some d \<Rightarrow>
         (case dep_status d of
            None \<Rightarrow> Inr (False, ''Deployment status is None'')
          | Some status \<Rightarrow>
             (case dep_spec d of
                None \<Rightarrow> Inl (AttributeError ''NoneType object has no attribute replicas'')
              | Some spec \<Rightarrow>
                 (let desired_replicas = int_or (replicas spec) 1;
                      ready = int_or (ready_replicas status) 0;
                      available = int_or (available_replicas status) 0
                  in if ready < desired_replicas
                       then Inr (False, ''Not all replicas ready: '' @ str_int ready @ ''/''
                                          @ str_int desired_replicas)
                     else if available < desired_replicas
                       then Inr (False, ''Not all replicas available: '' @ str_int available @ ''/''
                                          @ str_int desired_replicas)
                     else (case check_conditions (dict_get (conditions status) []) of
                             Some verdict \<Rightarrow> Inr verdict
                           | None \<Rightarrow> Inr (True, ''Healthy''))))))"

text \<open>A condition that the loop rejects.\<close>

definition condition_fails :: "condition \<Rightarrow> bool" where
  "condition_fails c =
     ((cond_type c = ''Available'' \<or> cond_type c = ''Progressing'') \<and> cond_status c \<noteq> ''True'')"

text \<open>
  The health predicate in the words of the specification: desired replicas default to
  1 when unset, ready and available replicas to 0 when unset.
\<close>

definition unset_default :: "int option \<Rightarrow> int \<Rightarrow> int" where
  "unset_default x d = (case x of None \<Rightarrow> d | Some n \<Rightarrow> n)"

definition spec_healthy :: "deployment option \<Rightarrow> bool" where
  "spec_healthy deployment =
     (case deployment of
        None \<Rightarrow> False
      | Some d \<Rightarrow>
         (case dep_status d of
            None \<Rightarrow> False
          | Some status \<Rightarrow>
             (let desired = unset_default (case dep_spec d of None \<Rightarrow> None | Some sp \<Rightarrow> replicas sp) 1
              in unset_default (ready_replicas status) 0 \<ge> desired
                 \<and> unset_default (available_replicas status) 0 \<ge> desired
                 \<and> list_all (\<lambda>c. \<not> condition_fails c) (dict_get (conditions status) []))))"

text \<open>
  Two conditions, a deployment scaled to zero replicas, and a deployment with one ready
  replica.
\<close>

definition available_true :: condition where
  "available_true = \<lparr>cond_type = ''Available'', cond_status = ''True'',
                      cond_reason = Some ''MinimumReplicasAvailable''\<rparr>"

definition progressing_false :: condition where
  "progressing_false = \<lparr>cond_type = ''Progressing'', cond_status = ''False'', cond_reason = None\<rparr>"


definition scaled_to_zero :: deployment where
  "scaled_to_zero =
     \<lparr>dep_spec = Some \<lparr>replicas = Some 0\<rparr>,
      dep_status = Some \<lparr>ready_replicas = None, available_replicas = None,
                          conditions = Some [available_true]\<rparr>\<rparr>"

definition one_replica :: "condition list \<Rightarrow> deployment" where
  "one_replica cs =
     \<lparr>dep_spec = Some \<lparr>replicas = None\<rparr>,
      dep_status = Some \<lparr>ready_replicas = Some 1, available_replicas = Some 1,
                          conditions = Some cs\<rparr>\<rparr>"

section \<open>Configuration manager: validation (utils/config\_manager.py)\<close>

text \<open>
  The configuration dataclasses. \<open>validate_config\<close> reads the data, model and
  preprocessing sub-records; the experiment-tracking, validation and inference
  sub-records are carried along in the records' extension slots and are not read.
\<close>

record data_config =
  data_source :: string
  data_format :: string
  data_target_column :: string
  test_size :: real
  validation_size :: real
  s3_bucket :: "string option"
  s3_prefix :: "string option"

record model_config =
  mc_type :: string
  mc_algorithm :: string
  mc_hyperparameters :: "(string \<times> int) list"

record preprocessing_config =
  numeric_strategy :: string
  categorical_strategy :: string
  handle_outliers :: bool
  feature_selection_enabled :: bool
  feature_selection_method :: string
  feature_selection_k :: int

record mlops_config =
  cfg_environment :: string
  cfg_aws_region :: string
  cfg_data :: data_config
  cfg_model :: model_config
  cfg_preprocessing :: preprocessing_config

text \<open>The messages that \<open>validate_config\<close> collects, one per violation.\<close>

datatype config_error =
    InvalidModelType string
  | InvalidAlgorithm string
  | InvalidDataFormat string
  | InvalidTestSize real
  | InvalidValidationSize real
  | InvalidNumericStrategy string
  | InvalidCategoricalStrategy string

definition valid_algorithms :: "string list" where
  "valid_algorithms = [''random_forest'', ''xgboost'', ''linear_regression'', ''logistic_regression'']"

text \<open>The list \<^verbatim>\<open>errors\<close> as the method builds it, check after check.\<close>

definition validation_errors :: "mlops_config \<Rightarrow> config_error list" where
  "validation_errors config =
     (if mc_type (cfg_model config) \<notin> set [''classification'', ''regression'']
        then [InvalidModelType (mc_type (cfg_model config))] else [])
     @ (if mc_algorithm (cfg_model config) \<notin> set valid_algorithms
        then [InvalidAlgorithm (mc_algorithm (cfg_model config))] else [])
     @ (if data_format (cfg_data config) \<notin> set [''csv'', ''parquet'', ''json'']
        then [InvalidDataFormat (data_format (cfg_data config))] else [])
     @ (if \<not> (0 < test_size (cfg_data config) \<and> test_size (cfg_data config) < 1)
        then [InvalidTestSize (test_size (cfg_data config))] else [])
     @ (if \<not> (0 < validation_size (cfg_data config) \<and> validation_size (cfg_data config) < 1)
        then [InvalidValidationSize (validation_size (cfg_data config))] else [])
     @ (if numeric_strategy (cfg_preprocessing config) \<notin> set [''standard'', ''minmax'', ''robust'']
        then [InvalidNumericStrategy (numeric_strategy (cfg_preprocessing config))] else [])
     @ (if categorical_strategy (cfg_preprocessing config) \<notin> set [''onehot'', ''ordinal'', ''label'']
        then [InvalidCategoricalStrategy (categorical_strategy (cfg_preprocessing config))] else [])"

text \<open>
  \<^verbatim>\<open>validate_config\<close>: the returned flag and the messages logged (none when the
  configuration is valid, apart from the informational line).
\<close>

definition validate_config :: "mlops_config \<Rightarrow> bool \<times> config_error list" where
  "validate_config config =
     (let errors = validation_errors config
      in if errors \<noteq> [] then (False, errors) else (True, []))"

text \<open>The configuration made of the dataclass defaults.\<close>

definition default_config :: mlops_config where
  "default_config =
     \<lparr>cfg_environment = ''dev'', cfg_aws_region = ''us-west-2'',
      cfg_data = \<lparr>data_source = ''local'', data_format = ''csv'', data_target_column = ''target'',
                   test_size = 0.2, validation_size = 0.1, s3_bucket = None, s3_prefix = None\<rparr>,
      cfg_model = \<lparr>mc_type = ''classification'', mc_algorithm = ''random_forest'',
                    mc_hyperparameters = [(''n_estimators'', 100), (''max_depth'', 10),
                                          (''random_state'', 42)]\<rparr>,
      cfg_preprocessing = \<lparr>numeric_strategy = ''standard'', categorical_strategy = ''onehot'',
                            handle_outliers = True, feature_selection_enabled = True,
                            feature_selection_method = ''k_best'', feature_selection_k = 10\<rparr>\<rparr>"

section \<open>Inference pipeline: statistics (pipelines/inference\_pipeline.py)\<close>

text \<open>
  The three running counters. Python's \<^verbatim>\<open>/\<close> raises \<^verbatim>\<open>ZeroDivisionError\<close> on a zero
  divisor; the division is modelled with that outcome.
\<close>

record inference_stats =
  total_predictions :: int
  total_inference_time :: real
  error_count :: int

record stats_view =
  view_total_predictions :: int
  view_total_inference_time :: real
  view_error_count :: int
  avg_inference_time_per_prediction :: real
  error_rate :: real

definition truediv :: "real \<Rightarrow> real \<Rightarrow> exn + real" where
  "truediv a b = (if b = 0 then Inl (ZeroDivisionError ''division by zero'') else Inr (a / b))"

definition initial_stats :: inference_stats where
  "initial_stats = \<lparr>total_predictions = 0, total_inference_time = 0, error_count = 0\<rparr>"

text \<open>
  \<^verbatim>\<open>get_inference_stats\<close>: works on a copy of the counter dictionary; the pipeline's
  own counters are returned as they were.
\<close>

definition get_inference_stats :: "inference_stats \<Rightarrow> (exn + stats_view) \<times> inference_stats" where
  "get_inference_stats self =
     (let stats = self
      in if total_predictions stats > 0 then
           (case truediv (total_inference_time stats) (real_of_int (total_predictions stats)) of
              Inl e \<Rightarrow> (Inl e, self)
            | Inr avg \<Rightarrow>
               (case truediv (real_of_int (error_count stats)) (real_of_int (total_predictions stats)) of
                  Inl e \<Rightarrow> (Inl e, self)
                | Inr rate \<Rightarrow>
                   (Inr \<lparr>view_total_predictions = total_predictions stats,
                         view_total_inference_time = total_inference_time stats,
                         view_error_count = error_count stats,
                         avg_inference_time_per_prediction = avg, error_rate = rate\<rparr>, self)))
         else (Inr \<lparr>view_total_predictions = total_predictions stats,
                     view_total_inference_time = total_inference_time stats,
                     view_error_count = error_count stats,
                     avg_inference_time_per_prediction = 0, error_rate = 0\<rparr>, self))"

text \<open>
  What changes the counters: a successful \<^verbatim>\<open>predict\<close> adds the number of predictions
  (a length) and the elapsed time, a failing one adds one error, \<^verbatim>\<open>reset_stats\<close>
  zeroes all three.
\<close>

datatype stats_event = Predicted nat real | PredictFailed | ResetStats

fun apply_stats_event :: "inference_stats \<Rightarrow> stats_event \<Rightarrow> inference_stats" where
  "apply_stats_event s (Predicted n elapsed) =
     s\<lparr>total_predictions := total_predictions s + int n,
       total_inference_time := total_inference_time s + elapsed\<rparr>"
| "apply_stats_event s PredictFailed = s\<lparr>error_count := error_count s + 1\<rparr>"
| "apply_stats_event s ResetStats = initial_stats"

definition stats_after :: "stats_event list \<Rightarrow> inference_stats" where
  "stats_after events = foldl apply_stats_event initial_stats events"

section \<open>Lightweight baseline monitor (utils/monitoring.py)\<close>

text \<open>
  The statistics of the numeric libraries are parameters: the mean and the standard
  deviation of an array, and the column means and standard deviations of a data frame,
  each column statistic given as the list of pairs of column name and value in column
  order. The type \<open>'df\<close> of data frames is left open.
\<close>

record 'df numlib =
  np_mean :: "real list \<Rightarrow> real"
  np_std :: "real list \<Rightarrow> real"
  np_histogram :: "real list \<Rightarrow> nat list"
  frame_mean :: "'df \<Rightarrow> (string \<times> real) list"
  frame_std :: "'df \<Rightarrow> (string \<times> real) list"

record baseline_stats =
  feature_means :: "(string \<times> real) list"
  feature_stds :: "(string \<times> real) list"
  prediction_mean :: real
  prediction_std :: real
  prediction_distribution :: "nat list"
  baseline_timestamp :: string

record prediction_record =
  rec_timestamp :: string
  num_samples :: nat
  rec_prediction_mean :: real
  rec_prediction_std :: real
  latency_ms :: real
  rec_feature_means :: "(string \<times> real) list"

record baseline_monitor =
  monitor_name :: string
  baseline :: "baseline_stats option"
  prediction_history :: "prediction_record list"
  drift_threshold :: real

text \<open>The constructor: no baseline, empty history, threshold 0.1.\<close>

definition new_baseline_monitor :: "string \<Rightarrow> baseline_monitor" where
  "new_baseline_monitor name =
     \<lparr>monitor_name = name, baseline = None, prediction_history = [], drift_threshold = 0.1\<rparr>"

definition set_baseline ::
  "'df numlib \<Rightarrow> string \<Rightarrow> baseline_monitor \<Rightarrow> 'df \<Rightarrow> real list \<Rightarrow> baseline_monitor" where
  "set_baseline lib now self data predictions =
     self\<lparr>baseline := Some \<lparr>feature_means = frame_mean lib data,
                               feature_stds = frame_std lib data,
                               prediction_mean = np_mean lib predictions,
                               prediction_std = np_std lib predictions,
                               prediction_distribution = np_histogram lib predictions,
                               baseline_timestamp = now\<rparr>\<rparr>"

text \<open>The record that \<^verbatim>\<open>log_prediction\<close> builds from one call.\<close>

definition make_record ::
  "'df numlib \<Rightarrow> string \<times> 'df \<times> real list \<times> real \<Rightarrow> prediction_record" where
  "make_record lib call =
     (case call of (now, input_data, predictions, latency) \<Rightarrow>
        \<lparr>rec_timestamp = now, num_samples = length predictions,
         rec_prediction_mean = np_mean lib predictions,
         rec_prediction_std = np_std lib predictions,
         latency_ms = latency, rec_feature_means = frame_mean lib input_data\<rparr>)"

text \<open>
  \<^verbatim>\<open>log_prediction\<close>: append, then keep the last 1000 records when there are more
  (\<^verbatim>\<open>history[-1000:]\<close>). A call is the clock reading, the input frame, the
  predictions and the latency.
\<close>

definition log_prediction ::
  "'df numlib \<Rightarrow> baseline_monitor \<Rightarrow> string \<times> 'df \<times> real list \<times> real \<Rightarrow> baseline_monitor" where
  "log_prediction lib self call =
     (let history = prediction_history self @ [make_record lib call]
      in if length history > 1000
         then self\<lparr>prediction_history := drop (length history - 1000) history\<rparr>
         else self\<lparr>prediction_history := history\<rparr>)"

definition reset_history :: "baseline_monitor \<Rightarrow> baseline_monitor" where
  "reset_history self = self\<lparr>prediction_history := []\<rparr>"

text \<open>
  The result dictionary of \<^verbatim>\<open>detect_drift\<close>. Without a baseline it has only the flag
  and a message; with one it has the flag, the drifted features and the scores.
\<close>

record drift_report =
  drift_detected :: bool
  drift_message :: "string option"
  drifted_features :: "string list option"
  drift_scores :: "(string \<times> real) list option"

text \<open>
  One round of the loop over the current column means, on the flag, the drifted
  features and the scores. The standard deviation defaults to 1.0 when the baseline
  has none for the feature, and is replaced by 1.0 when it is zero.
\<close>

definition drift_step ::
  "baseline_stats \<Rightarrow> real \<Rightarrow> string \<times> real \<Rightarrow> bool \<times> string list \<times> (string \<times> real) list
     \<Rightarrow> exn + bool \<times> string list \<times> (string \<times> real) list" where
  "drift_step stats threshold column acc =
     (case column of (feature, current_mean) \<Rightarrow>
      case acc of (detected, drifted, scores) \<Rightarrow>
        (case map_of (feature_means stats) feature of
           None \<Rightarrow> Inr acc
         | Some baseline_mean \<Rightarrow>
            (let baseline_std = dict_get (map_of (feature_stds stats) feature) 1;
                 baseline_std = (if baseline_std = 0 then 1 else baseline_std)
             in case truediv \<bar>current_mean - baseline_mean\<bar> baseline_std of
                  Inl e \<Rightarrow> Inl e
                | Inr drift_score \<Rightarrow>
                    if drift_score > threshold
                    then Inr (True, drifted @ [feature], AList.update feature drift_score scores)
                    else Inr (detected, drifted, AList.update feature drift_score scores))))"

fun drift_loop ::
  "baseline_stats \<Rightarrow> real \<Rightarrow> (string \<times> real) list \<Rightarrow> bool \<times> string list \<times> (string \<times> real) list
     \<Rightarrow> exn + bool \<times> string list \<times> (string \<times> real) list" where
  "drift_loop stats threshold [] acc = Inr acc"
| "drift_loop stats threshold (column # columns) acc =
     (case drift_step stats threshold column acc of
        Inl e \<Rightarrow> Inl e
      | Inr acc' \<Rightarrow> drift_loop stats threshold columns acc')"

definition detect_drift :: "'df numlib \<Rightarrow> baseline_monitor \<Rightarrow> 'df \<Rightarrow> exn + drift_report" where
  "detect_drift lib self current_data =
     (case baseline self of
        None \<Rightarrow> Inr \<lparr>drift_detected = False, drift_message = Some ''No baseline set'',
                      drifted_features = None, drift_scores = None\<rparr>
      | Some stats \<Rightarrow>
         (case drift_loop stats (drift_threshold self) (frame_mean lib current_data)
                 (False, [], []) of
            Inl e \<Rightarrow> Inl e
          | Inr (detected, drifted, scores) \<Rightarrow>
              Inr \<lparr>drift_detected = detected, drift_message = None,
                    drifted_features = Some drifted, drift_scores = Some scores\<rparr>))"

text \<open>
  The standard deviation the score is divided by, as the code computes it; the scored
  features; and the score in the words of the specification, with the standard
  deviation floored to 1.0.
\<close>

definition effective_std :: "baseline_stats \<Rightarrow> string \<Rightarrow> real" where
  "effective_std stats feature =
     (case map_of (feature_stds stats) feature of
        None \<Rightarrow> 1
      | Some s \<Rightarrow> if s = 0 then 1 else s)"

text \<open>A feature of the current data that the baseline knows, with its score.\<close>

definition scored :: "baseline_stats \<Rightarrow> string \<times> real \<Rightarrow> (string \<times> real) option" where
  "scored stats column =
     (case column of (feature, m) \<Rightarrow>
        (case map_of (feature_means stats) feature of
           None \<Rightarrow> None
         | Some bm \<Rightarrow> Some (feature, \<bar>m - bm\<bar> / effective_std stats feature)))"

definition spec_floored_score :: "real \<Rightarrow> real \<Rightarrow> real \<Rightarrow> real" where
  "spec_floored_score current_mean baseline_mean baseline_std =
     \<bar>current_mean - baseline_mean\<bar> / max baseline_std 1"

text \<open>
  A library over frames given directly by their column means, a baseline with a
  standard deviation of 0.5 for \<open>x\<close> and of 0 for \<open>y\<close>, and a monitor using it.
\<close>

definition demo_numlib :: "(string \<times> real) list numlib" where
  "demo_numlib =
     \<lparr>np_mean = (\<lambda>xs. if xs = [] then 0 else sum_list xs / real (length xs)),
      np_std = (\<lambda>xs. 0), np_histogram = (\<lambda>xs. []),
      frame_mean = (\<lambda>df. df), frame_std = (\<lambda>df. [])\<rparr>"

definition demo_baseline :: baseline_stats where
  "demo_baseline =
     \<lparr>feature_means = [(''x'', 0), (''y'', 1)], feature_stds = [(''x'', 0.5), (''y'', 0)],
      prediction_mean = 0, prediction_std = 0, prediction_distribution = [],
      baseline_timestamp = ''2024-01-01T00:00:00''\<rparr>"

definition demo_baseline_monitor :: baseline_monitor where
  "demo_baseline_monitor = (new_baseline_monitor ''demo'')\<lparr>baseline := Some demo_baseline\<rparr>"

definition demo_columns :: "(string \<times> real) list" where
  "demo_columns = [(''x'', 0.08), (''y'', 1.05), (''z'', 7)]"

definition demo_call :: "string \<times> (string \<times> real) list \<times> real list \<times> real" where
  "demo_call = (''2024-01-01T00:00:00'', [(''x'', 1)], [1, 0], 12)"

section \<open>Sequences of calls on the two monitors\<close>

text \<open>A sequence of \<^verbatim>\<open>log_prediction\<close> calls on the same monitor.\<close>

definition log_predictions ::
  "'df numlib \<Rightarrow> baseline_monitor \<Rightarrow> (string \<times> 'df \<times> real list \<times> real) list \<Rightarrow> baseline_monitor" where
  "log_predictions lib self calls = foldl (log_prediction lib) self calls"

text \<open>
  A sequence of \<^verbatim>\<open>run_monitoring\<close> calls on the same statistical monitor, each with
  its current data and its performance flag.
\<close>

definition run_monitoring_calls ::
  "('row, 'exp) engine \<Rightarrow> 'row model_monitor \<Rightarrow> ('row dataframe \<times> bool) list \<Rightarrow> 'row model_monitor" where
  "run_monitoring_calls eng self calls =
     foldl (\<lambda>monitor call. snd (run_monitoring eng monitor (fst call) (snd call))) self calls"

text \<open>An engine whose detector and quality report never raise.\<close>

definition engine_returns :: "('row, 'exp) engine \<Rightarrow> bool" where
  "engine_returns eng \<longleftrightarrow>
     (\<forall>r d cs. \<exists>x. detect_data_drift eng r d cs = Inr x)
     \<and> (\<forall>t r d. \<exists>x. quality_report eng t r d = Inr x)"

section \<open>Configuration manager: deep merge (utils/config\_manager.py)\<close>

text \<open>
  A configuration value is a nested dictionary or anything else (a scalar, a list),
  the latter kept as a leaf. A dictionary is the list of its items in insertion order;
  its keys are pairwise different.
\<close>

datatype 'a cfg = Leaf 'a | Dict "(string \<times> 'a cfg) list"

text \<open>
  \<^verbatim>\<open>_deep_merge(base, override)\<close>. The first argument is \<^verbatim>\<open>result\<close>, which starts as
  a copy of \<^verbatim>\<open>base\<close>; the second is what is left of \<^verbatim>\<open>override.items()\<close>. Each
  round stores under the key either the recursive merge, when the key is in
  \<^verbatim>\<open>result\<close> with a dictionary on both sides, or the overriding value.
\<close>

function deep_merge ::
  "(string \<times> 'a cfg) list \<Rightarrow> (string \<times> 'a cfg) list \<Rightarrow> (string \<times> 'a cfg) list" where
  "deep_merge result [] = result"
| "deep_merge result ((key, Dict value) # items) =
     deep_merge
       (case map_of result key of
          Some (Dict sub) \<Rightarrow> AList.update key (Dict (deep_merge sub value)) result
        | _ \<Rightarrow> AList.update key (Dict value) result)
       items"
| "deep_merge result ((key, Leaf value) # items) =
     deep_merge (AList.update key (Leaf value) result) items"
  by pat_completeness auto
termination
  by (relation "measure (\<lambda>(result, items). size_list (size_prod (\<lambda>_. 0) size) items)") auto

text \<open>The value a key ends up with when both dictionaries have it.\<close>

fun merged_value :: "'a cfg option \<Rightarrow> 'a cfg \<Rightarrow> 'a cfg" where
  "merged_value (Some (Dict sub)) (Dict value) = Dict (deep_merge sub value)"
| "merged_value old value = value"

text \<open>A base configuration and an overriding one.\<close>

definition demo_base :: "(string \<times> string cfg) list" where
  "demo_base =
     [(''data'', Dict [(''format'', Leaf ''csv''), (''test_size'', Leaf ''0.2'')]),
      (''environment'', Leaf ''dev''),
      (''model'', Leaf ''default'')]"

definition demo_override :: "(string \<times> string cfg) list" where
  "demo_override =
     [(''data'', Dict [(''format'', Leaf ''parquet'')]),
      (''aws_region'', Leaf ''eu-west-1''),
      (''model'', Dict [(''type'', Leaf ''regression'')])]"

section \<open>Training pipeline: three-way split (pipelines/training\_pipeline.py)\<close>

subsection \<open>Float arithmetic\<close>

text \<open>
  The split fractions are Python floats, and the number of rows of a part is the
  ceiling of a float product, so a rounding error of one unit in the last place can
  move a row from one part to another. For this module a float is therefore a real
  number that is representable in the binary64 format, and every operation returns the
  exact result rounded to the nearest representable number, ties to the even
  mantissa, as the format prescribes. Results beyond the largest finite float are
  outside the model; no operation of \<^verbatim>\<open>split_data\<close> on fractions between 0 and 1
  produces one.

  \<open>scale_down\<close> and \<open>scale_up\<close> bring a non-negative number into the form
  \<open>m \<cdot> 2\<^bsup>e\<^esup>\<close> with \<open>2\<^bsup>52\<^esup> \<le> m < 2\<^bsup>53\<^esup>\<close>, or with \<open>e = - 1074\<close> for a number in
  the subnormal range; rounding \<open>m\<close> to an integer then leaves 53 significant bits.
\<close>

definition round_half_even :: "real \<Rightarrow> int" where
  "round_half_even x =
     (let f = \<lfloor>x\<rfloor>; d = x - of_int f
      in if d < 1 / 2 then f else if 1 / 2 < d then f + 1
         else if even f then f else f + 1)"

function scale_down :: "real \<Rightarrow> int \<Rightarrow> real \<times> int" where
  "scale_down m e = (if 2 ^ 53 \<le> m then scale_down (m / 2) (e + 1) else (m, e))"
  by pat_completeness auto
termination
proof (relation "measure (\<lambda>(m, e). nat \<lfloor>m\<rfloor>)")
  show "wf (measure (\<lambda>(m, e). nat \<lfloor>m\<rfloor>))" by simp
next
  fix m :: real and e :: int
  assume "2 ^ 53 \<le> m"
  then have "2 \<le> m" by simp
  then have "m / 2 \<le> m - 1" by simp
  then have "\<lfloor>m / 2\<rfloor> \<le> \<lfloor>m - 1\<rfloor>" by (rule floor_mono)
  then have "\<lfloor>m / 2\<rfloor> < \<lfloor>m\<rfloor>" by simp
  moreover have "0 < \<lfloor>m\<rfloor>" using \<open>2 \<le> m\<close> by simp
  ultimately show "((m / 2, e + 1), (m, e)) \<in> measure (\<lambda>(m, e). nat \<lfloor>m\<rfloor>)" by simp
qed

function scale_up :: "real \<Rightarrow> int \<Rightarrow> real \<times> int" where
  "scale_up m e = (if m < 2 ^ 52 \<and> - 1074 < e then scale_up (m * 2) (e - 1) else (m, e))"
  by pat_completeness auto
termination
  by (relation "measure (\<lambda>(m, e). nat (e + 1074))") simp_all

declare scale_down.simps [simp del] scale_up.simps [simp del]

definition pow2 :: "int \<Rightarrow> real" where
  "pow2 e = (if 0 \<le> e then 2 ^ nat e else 1 / 2 ^ nat (- e))"

definition round64 :: "real \<Rightarrow> real" where
  "round64 x =
     (if x = 0 then 0
      else (case scale_down \<bar>x\<bar> 0 of
              (m', e') \<Rightarrow>
                (case scale_up m' e' of
                   (m, e) \<Rightarrow> sgn x * of_int (round_half_even m) * pow2 e)))"

text \<open>
  The operations \<^verbatim>\<open>split_data\<close> and the splitter use: a decimal literal, the
  conversion of a row count, \<^verbatim>\<open>-\<close>, \<^verbatim>\<open>*\<close> and \<^verbatim>\<open>/\<close>, which raises on a zero
  divisor.
\<close>

definition float_literal :: "real \<Rightarrow> real" where
  "float_literal x = round64 x"

definition float_of_nat :: "nat \<Rightarrow> real" where
  "float_of_nat n = round64 (real n)"

definition float_sub :: "real \<Rightarrow> real \<Rightarrow> real" where
  "float_sub a b = round64 (a - b)"

definition float_mul :: "real \<Rightarrow> real \<Rightarrow> real" where
  "float_mul a b = round64 (a * b)"

definition float_truediv :: "real \<Rightarrow> real \<Rightarrow> exn + real" where
  "float_truediv a b =
     (if b = 0 then Inl (ZeroDivisionError ''float division by zero'') else Inr (round64 (a / b)))"

subsection \<open>The split\<close>

text \<open>
  The two sections of the pipeline configuration that \<^verbatim>\<open>split_data\<close> reads. A
  missing section or a missing model type makes the subscript raise \<^verbatim>\<open>KeyError\<close>; a
  missing split fraction falls back to the default of \<^verbatim>\<open>get\<close>. The fractions are
  floats.
\<close>

record split_section =
  sec_test_size :: "real option"
  sec_validation_size :: "real option"

record model_section =
  sec_type :: "string option"

record pipeline_config =
  pc_data :: "split_section option"
  pc_model :: "model_section option"

text \<open>
  \<^verbatim>\<open>train_test_split\<close> belongs to the machine-learning library, not to the repository.
  It is modelled after the library's behaviour for a fractional \<^verbatim>\<open>test_size\<close>: the
  fraction must lie strictly between 0 and 1, the test part gets
  \<^verbatim>\<open>ceil(test_size * n_samples)\<close> of the \<^verbatim>\<open>n_samples\<close> rows, the product being a float
  product, and the train part the others, an empty train part is an error, and the
  rows are dealt out after a shuffle. The shuffle is a parameter: it depends on the
  seed and on whether the split is stratified, and a stratified shuffle may itself
  raise. A row is a pair of a feature vector and its target, since the library splits
  the two arrays at the same indices.
\<close>

definition train_test_split ::
  "(nat \<Rightarrow> bool \<Rightarrow> 'r list \<Rightarrow> exn + 'r list) \<Rightarrow> 'r list \<Rightarrow> real \<Rightarrow> nat \<Rightarrow> bool
     \<Rightarrow> exn + ('r list \<times> 'r list)" where
  "train_test_split shuffle rows test_size' random_state stratify =
     (if \<not> (0 < test_size' \<and> test_size' < 1)
        then Inl (ValueError ''test_size should be in the (0, 1) range'')
      else
        (let n_samples = length rows;
             n_test = nat \<lceil>float_mul test_size' (float_of_nat n_samples)\<rceil>;
             n_train = n_samples - n_test
         in if n_train = 0 then Inl (ValueError ''the resulting train set will be empty'')
            else (case shuffle random_state stratify rows of
                    Inl e \<Rightarrow> Inl e
                  | Inr permuted \<Rightarrow> Inr (drop n_test permuted, take n_test permuted))))"

text \<open>
  \<^verbatim>\<open>split_data\<close>: first the test part, then the validation part out of the rest, at
  the fraction \<^verbatim>\<open>val_size / (1 - test_size)\<close>. The result is the train, validation and
  test rows.
\<close>

definition split_data ::
  "(nat \<Rightarrow> bool \<Rightarrow> 'r list \<Rightarrow> exn + 'r list) \<Rightarrow> pipeline_config \<Rightarrow> 'r list
     \<Rightarrow> exn + ('r list \<times> 'r list \<times> 'r list)" where
  "split_data shuffle config rows =
     (case pc_data config of
        None \<Rightarrow> Inl (KeyError ''data'')
      | Some data_config \<Rightarrow>
         (let test_size' = dict_get (sec_test_size data_config) (float_literal 0.2);
              val_size = dict_get (sec_validation_size data_config) (float_literal 0.1)
          in case pc_model config of
               None \<Rightarrow> Inl (KeyError ''model'')
             | Some model \<Rightarrow>
                (case sec_type model of
                   None \<Rightarrow> Inl (KeyError ''type'')
                 | Some mtype \<Rightarrow>
                    (case train_test_split shuffle rows test_size' 42
                            (mtype = ''classification'') of
                       Inl e \<Rightarrow> Inl e
                     | Inr (temp, test) \<Rightarrow>
                        (case float_truediv val_size (float_sub 1 test_size') of
                           Inl e \<Rightarrow> Inl e
                         | Inr val_size_adjusted \<Rightarrow>
                            (case train_test_split shuffle temp val_size_adjusted 42
                                    (mtype = ''classification'') of
                               Inl e \<Rightarrow> Inl e
                             | Inr (train, val) \<Rightarrow> Inr (train, val, test)))))))"

text \<open>The share of the rows of a data set that a part holds.\<close>

definition share :: "'r list \<Rightarrow> 'r list \<Rightarrow> real" where
  "share part rows = real (length part) / real (length rows)"

text \<open>A shuffle hands back the rows it was given, in some order.\<close>

definition permutes :: "(nat \<Rightarrow> bool \<Rightarrow> 'r list \<Rightarrow> exn + 'r list) \<Rightarrow> bool" where
  "permutes shuffle \<longleftrightarrow>
     (\<forall>seed stratify rows permuted.
        shuffle seed stratify rows = Inr permuted \<longrightarrow> mset permuted = mset rows)"

text \<open>
  A configuration of a regression model with the fractions written as the decimal
  literals \<open>t\<close> and \<open>v\<close>, the default fractions, a shuffle that reverses the rows, and
  data sets of ten and of seven rows.
\<close>

definition split_config :: "real \<Rightarrow> real \<Rightarrow> pipeline_config" where
  "split_config t v =
     \<lparr>pc_data = Some \<lparr>sec_test_size = Some (float_literal t),
                      sec_validation_size = Some (float_literal v)\<rparr>,
      pc_model = Some \<lparr>sec_type = Some ''regression''\<rparr>\<rparr>"

definition default_split_config :: pipeline_config where
  "default_split_config = split_config 0.2 0.1"

definition rev_shuffle :: "nat \<Rightarrow> bool \<Rightarrow> 'r list \<Rightarrow> exn + 'r list" where
  "rev_shuffle seed stratify rows = Inr (rev rows)"

definition ten_rows :: "(nat \<times> nat) list" where
  "ten_rows = [(0, 5), (1, 6), (2, 5), (3, 7), (4, 5), (5, 6), (6, 5), (7, 7), (8, 5), (9, 6)]"

definition seven_rows :: "(nat \<times> nat) list" where
  "seven_rows = [(0, 5), (1, 6), (2, 5), (3, 7), (4, 5), (5, 6), (6, 5)]"

section \<open>Theorems\<close>

lemma determine_health_policy:
  "Some (determine_health r) = spec_health_policy (result_drift r) (result_share r) (result_degradation r)"
  by (auto simp add: determine_health_def spec_health_policy_def result_drift_def result_share_def
      result_degradation_def dict_get_def Let_def split: option.splits)

subsection \<open>Health policy of the statistical monitor\<close>

lemma determine_health_status_irrelevant:
  "determine_health \<lparr>timestamp = a, res_model_type = b, samples_analyzed = c, data_drift = d,
      model_performance = e, health_status = Some x, report_path = f\<rparr> =
   determine_health \<lparr>timestamp = a, res_model_type = b, samples_analyzed = c, data_drift = d,
      model_performance = e, health_status = None, report_path = f\<rparr>"
  by (simp add: determine_health_def)

lemma run_monitoring_Inr:
  assumes "run_monitoring eng self current_data incl = (Inr r, self')"
  shows "health_status r = Some (determine_health r)
       \<and> self' = self\<lparr>monitoring_history := monitoring_history self @ [r]\<rparr>
       \<and> samples_analyzed r = length (df_rows current_data)"
  using assms unfolding run_monitoring_def Let_def
  by (auto split: sum.splits simp add: determine_health_status_irrelevant)

lemma demo_run:
  "run_monitoring demo_engine demo_monitor demo_frame True =
     (Inr demo_result, demo_monitor\<lparr>monitoring_history := [demo_result]\<rparr>)"
  by (simp add: run_monitoring_def demo_engine_def demo_monitor_def demo_frame_def
      demo_result_def check_model_performance_def calc_degradation_def dict_get_def
      determine_health_def Let_def)

text \<open>
  C1. The health status of every result composed by \<open>run_monitoring\<close> is the verdict of
  the first rule of the ordered policy that applies to the result's drift flag, drift
  share and degradation. On synthetic results: drift with share 0.6 is critical, drift
  with share 0.35 is a warning, no drift with degradation 25 is critical, no drift and
  no degradation is healthy.
\<close>

theorem run_monitoring_health_policy:
  assumes "run_monitoring eng self current_data incl = (Inr r, self')"
  shows "health_status r =
           spec_health_policy (result_drift r) (result_share r) (result_degradation r)
         \<and> determine_health \<lparr>timestamp = ts, res_model_type = mt, samples_analyzed = n,
              data_drift = Some \<lparr>dataset_drift = Some True, drift_share = Some 0.6, drifted_columns = cs\<rparr>,
              model_performance = p, health_status = h, report_path = rp\<rparr> = ''critical''
         \<and> determine_health \<lparr>timestamp = ts, res_model_type = mt, samples_analyzed = n,
              data_drift = Some \<lparr>dataset_drift = Some True, drift_share = Some 0.35, drifted_columns = cs\<rparr>,
              model_performance = None, health_status = h, report_path = rp\<rparr> = ''warning''
         \<and> determine_health \<lparr>timestamp = ts, res_model_type = mt, samples_analyzed = n,
              data_drift = Some \<lparr>dataset_drift = Some False, drift_share = s, drifted_columns = cs\<rparr>,
              model_performance = Some \<lparr>performance_degradation = Some 25\<rparr>,
              health_status = h, report_path = rp\<rparr> = ''critical''
         \<and> determine_health \<lparr>timestamp = ts, res_model_type = mt, samples_analyzed = n,
              data_drift = Some \<lparr>dataset_drift = Some False, drift_share = s, drifted_columns = cs\<rparr>,
              model_performance = Some \<lparr>performance_degradation = Some 0\<rparr>,
              health_status = h, report_path = rp\<rparr> = ''healthy''"
proof -
  from assms have "health_status r = Some (determine_health r)"
    by (simp add: run_monitoring_Inr)
  then have "health_status r =
      spec_health_policy (result_drift r) (result_share r) (result_degradation r)"
    by (simp only: determine_health_policy)
  then show ?thesis
    by (simp add: determine_health_def dict_get_def Let_def)
qed

theorem run_monitoring_health_policy_witness:
  "run_monitoring demo_engine demo_monitor demo_frame True =
     (Inr demo_result, demo_monitor\<lparr>monitoring_history := [demo_result]\<rparr>)
   \<and> health_status demo_result =
       spec_health_policy (result_drift demo_result) (result_share demo_result)
         (result_degradation demo_result)
   \<and> health_status demo_result = Some ''critical''"
  using run_monitoring_health_policy [OF demo_run] demo_run
  by (simp add: demo_result_def)

subsection \<open>Monitoring HTTP service\<close>

lemma register_unsupported:
  assumes "\<not> endswith (rm_reference_data_path request) ''.csv''"
      and "\<not> endswith (rm_reference_data_path request) ''.parquet''"
  shows "register_model eng st request =
           (Inl (HTTPException 500 (str_exn (HTTPException 400 ''Unsupported file format''))), st)"
  using assms
  by (simp add: register_model_def register_model_body_def bind_exn_def except_500_def)

lemma run_monitoring_try_no_data:
  assumes "mr_current_data_path request = None \<or> mr_current_data_path request = Some []"
      and "mr_current_data request = None \<or> mr_current_data request = Some []"
  shows "run_monitoring_try eng key monitor exporter request =
           (Inl (HTTPException 400 ''No current data provided''), monitor, exporter)"
  using assms by (auto simp add: run_monitoring_try_def load_current_data_def)

lemma startswith_colon_iff:
  "startswith key (name @ '':'') \<longleftrightarrow> (\<exists>rest. key = name @ '':'' @ rest)"
  by (auto simp add: startswith_def prefix_def)

lemma find_model_key_exact:
  "name \<in> set (map fst mons) \<Longrightarrow> find_model_key mons name = Some name"
  by (simp add: find_model_key_def)

lemma find_model_key_first_prefixed:
  assumes "name \<notin> set (map fst mons)" and "i < length mons"
      and "\<exists>rest. fst (mons ! i) = name @ '':'' @ rest"
      and "\<forall>j<i. \<not> (\<exists>rest. fst (mons ! j) = name @ '':'' @ rest)"
  shows "find_model_key mons name = Some (fst (mons ! i))"
proof -
  let ?P = "\<lambda>key. startswith key (name @ '':'')"
  have "i < length (map fst mons)" using assms(2) by simp
  moreover have "?P (map fst mons ! i)"
    using assms(2,3) by (simp add: startswith_colon_iff)
  moreover have "\<forall>j<i. \<not> ?P (map fst mons ! j)"
    using assms(2,4) by (simp add: startswith_colon_iff)
  ultimately have "List.find ?P (map fst mons) = Some (map fst mons ! i)"
    unfolding find_Some_iff by blast
  then show ?thesis using assms(1,2) by (simp add: find_model_key_def)
qed

lemma find_model_key_none:
  assumes "name \<notin> set (map fst mons)"
      and "\<forall>k \<in> set (map fst mons). \<not> (\<exists>rest. k = name @ '':'' @ rest)"
  shows "find_model_key mons name = None"
proof -
  have "List.find (\<lambda>key. startswith key (name @ '':'')) (map fst mons) = None"
    unfolding find_None_iff using assms(2) by (simp add: startswith_colon_iff)
  then show ?thesis using assms(1) by (simp add: find_model_key_def)
qed

lemma endpoints_404:
  assumes "find_model_key (monitors st) name = None"
  shows "fst (svc_run_monitoring eng st (rq\<lparr>mr_model_name := name\<rparr>)) = Inl (model_not_found name)"
    and "fst (check_drift eng st (dq\<lparr>dc_model_name := name\<rparr>)) = Inl (model_not_found name)"
    and "get_monitoring_history st name = Inl (model_not_found name)"
    and "fst (unregister_model st name) = Inl (model_not_found name)"
  using assms
  by (simp_all add: svc_run_monitoring_def check_drift_def get_monitoring_history_def
      unregister_model_def not_model_key_def)

lemma find_model_key_stored:
  "find_model_key mons name = Some key \<Longrightarrow> key \<in> fst ` set mons"
  by (auto simp add: find_model_key_def find_Some_iff split: if_splits)

lemma resolves_to_find_model_key:
  assumes "resolves_to (map fst mons) name key"
  shows "find_model_key mons name = Some key"
proof -
  from assms consider (exact) "name \<in> set (map fst mons)" "key = name"
    | (prefixed) i where "name \<notin> set (map fst mons)" "i < length (map fst mons)"
        "map fst mons ! i = key" "\<exists>rest. key = name @ '':'' @ rest"
        "\<forall>j<i. \<not> (\<exists>rest. map fst mons ! j = name @ '':'' @ rest)"
    unfolding resolves_to_def by blast
  then show ?thesis
  proof cases
    case exact
    then show ?thesis by (simp add: find_model_key_exact)
  next
    case prefixed
    have i: "i < length mons" using prefixed(2) by simp
    have k: "fst (mons ! i) = key" using prefixed(3) i by simp
    have "\<exists>rest. fst (mons ! i) = name @ '':'' @ rest" using prefixed(4) k by simp
    moreover have "\<forall>j<i. \<not> (\<exists>rest. fst (mons ! j) = name @ '':'' @ rest)"
      using prefixed(5) i by simp
    ultimately have "find_model_key mons name = Some (fst (mons ! i))"
      using prefixed(1) i by (intro find_model_key_first_prefixed) auto
    then show ?thesis using k by simp
  qed
qed

lemma find_model_key_resolves_to:
  assumes "find_model_key mons name = Some key"
  shows "resolves_to (map fst mons) name key"
proof (cases "name \<in> set (map fst mons)")
  case True
  then show ?thesis using assms by (simp add: find_model_key_def resolves_to_def)
next
  case False
  then have "List.find (\<lambda>key. startswith key (name @ '':'')) (map fst mons) = Some key"
    using assms by (simp add: find_model_key_def)
  then obtain i where "i < length (map fst mons)" "startswith (map fst mons ! i) (name @ '':'')"
    "key = map fst mons ! i" "\<forall>j<i. \<not> startswith (map fst mons ! j) (name @ '':'')"
    unfolding find_Some_iff by blast
  then show ?thesis using False
    unfolding resolves_to_def startswith_colon_iff by blast
qed

lemma http_status_except_500: "http_status (except_500 outcome) \<noteq> 404"
  by (cases outcome) (simp_all add: except_500_def)

lemma resolved_entries:
  assumes "service_inv st" and "find_model_key (monitors st) name = Some key"
  obtains monitor exporter where "key \<noteq> []" "key \<in> set (map fst (monitors st))"
    "key \<in> set (map fst (exporters st))" "key \<in> set (map fst (reference_datasets st))"
    "map_of (monitors st) key = Some monitor" "map_of (exporters st) key = Some exporter"
proof -
  have k: "key \<in> fst ` set (monitors st)" using assms(2) by (rule find_model_key_stored)
  have e: "key \<in> fst ` set (exporters st)" and r: "key \<in> fst ` set (reference_datasets st)"
    using k assms(1) by (simp_all add: service_inv_def)
  have n: "key \<noteq> []"
  proof
    assume "key = []"
    then have "[] \<in> fst ` set (monitors st)" using k by simp
    then show False using assms(1) by (simp add: service_inv_def)
  qed
  from k obtain monitor where "map_of (monitors st) key = Some monitor"
    by (metis domD dom_map_of_conv_image_fst)
  moreover from e obtain exporter where "map_of (exporters st) key = Some exporter"
    by (metis domD dom_map_of_conv_image_fst)
  ultimately show ?thesis using that k e r n by simp
qed

lemma resolved_endpoints:
  assumes "find_model_key (monitors st) name = Some key" and "key \<noteq> []"
      and "map_of (monitors st) key = Some monitor" and "map_of (exporters st) key = Some exporter"
  shows "svc_run_monitoring eng st (rq\<lparr>mr_model_name := name\<rparr>) =
           (case run_monitoring_try eng key monitor exporter (rq\<lparr>mr_model_name := name\<rparr>) of
              (outcome, monitor', exporter') \<Rightarrow>
                (except_500 outcome,
                 st\<lparr>monitors := AList.update key monitor' (monitors st),
                    exporters := AList.update key exporter' (exporters st)\<rparr>))"
    and "check_drift eng st (dq\<lparr>dc_model_name := name\<rparr>) =
           (case check_drift_try eng monitor exporter (dq\<lparr>dc_model_name := name\<rparr>) of
              (outcome, exporter') \<Rightarrow>
                (except_500 outcome,
                 st\<lparr>exporters := AList.update key exporter' (exporters st)\<rparr>))"
    and "get_monitoring_history st name = Inr (HistoryResponse key (monitoring_history monitor))"
  using assms
  by (simp_all add: svc_run_monitoring_def check_drift_def get_monitoring_history_def
      not_model_key_def dict_lookup_def bind_exn_def)

lemma resolved_unregister:
  assumes "find_model_key (monitors st) name = Some key" and "key \<noteq> []"
      and "key \<in> set (map fst (monitors st))" and "key \<in> set (map fst (exporters st))"
      and "key \<in> set (map fst (reference_datasets st))"
  shows "unregister_model st name =
           (Inr (Unregistered key),
            st\<lparr>monitors := AList.delete key (monitors st),
               exporters := AList.delete key (exporters st),
               reference_datasets := AList.delete key (reference_datasets st)\<rparr>)"
  using assms by (simp add: unregister_model_def not_model_key_def)

lemma keys_update_present:
  "key \<in> fst ` set al \<Longrightarrow> fst ` set (AList.update key v al) = fst ` set al"
  by (auto simp add: dom_update)

lemma keys_delete: "fst ` set (AList.delete key al) = fst ` set al - {key}"
  using delete_keys [of key al] by (metis list.set_map set_removeAll)

lemma service_inv_initial: "service_inv initial_state"
  by (simp add: service_inv_def initial_state_def)

lemma service_inv_updates:
  assumes "service_inv st" and "key \<noteq> []"
  shows "service_inv (st\<lparr>monitors := AList.update key m (monitors st),
                         exporters := AList.update key e (exporters st),
                         reference_datasets := AList.update key r (reference_datasets st)\<rparr>)"
  using assms by (simp add: service_inv_def dom_update)

lemma register_model_body_state:
  assumes "register_model_body eng st request = Inr (body, st')"
  shows "\<exists>m e r. st' = st\<lparr>monitors := AList.update (rm_model_name request @ '':'' @ rm_model_version request) m (monitors st),
                         exporters := AList.update (rm_model_name request @ '':'' @ rm_model_version request) e (exporters st),
                         reference_datasets := AList.update (rm_model_name request @ '':'' @ rm_model_version request) r (reference_datasets st)\<rparr>"
  using assms
  by (auto simp add: register_model_body_def bind_exn_def Let_def split: sum.splits if_splits)

lemma service_inv_register:
  assumes "service_inv st"
  shows "service_inv (snd (register_model eng st request))"
proof (cases "register_model_body eng st request")
  case (Inl e)
  then show ?thesis using assms by (simp add: register_model_def except_500_def)
next
  case (Inr r)
  then obtain body st' where r: "r = (body, st')" by (cases r)
  from Inr r have "register_model_body eng st request = Inr (body, st')" by simp
  from register_model_body_state [OF this] have "service_inv st'"
    using service_inv_updates [OF assms] by auto
  then show ?thesis using Inr r by (simp add: register_model_def except_500_def)
qed

lemma service_inv_run_monitoring:
  assumes "service_inv st"
  shows "service_inv (snd (svc_run_monitoring eng st request))"
proof (cases "find_model_key (monitors st) (mr_model_name request)")
  case None
  then show ?thesis using assms by (simp add: svc_run_monitoring_def not_model_key_def)
next
  case (Some key)
  from resolved_entries [OF assms Some] obtain monitor exporter where
    k: "key \<noteq> []" "key \<in> set (map fst (monitors st))" "key \<in> set (map fst (exporters st))"
    and m: "map_of (monitors st) key = Some monitor" "map_of (exporters st) key = Some exporter"
    by blast
  obtain outcome monitor' exporter' where
    t: "run_monitoring_try eng key monitor exporter request = (outcome, monitor', exporter')"
    by (cases "run_monitoring_try eng key monitor exporter request") auto
  have "snd (svc_run_monitoring eng st request) =
          st\<lparr>monitors := AList.update key monitor' (monitors st),
             exporters := AList.update key exporter' (exporters st)\<rparr>"
    using Some k(1) m t
    by (simp add: svc_run_monitoring_def not_model_key_def dict_lookup_def)
  then show ?thesis using assms k(2,3)
    by (simp add: service_inv_def keys_update_present)
qed

lemma service_inv_check_drift:
  assumes "service_inv st"
  shows "service_inv (snd (check_drift eng st request))"
proof (cases "find_model_key (monitors st) (dc_model_name request)")
  case None
  then show ?thesis using assms by (simp add: check_drift_def not_model_key_def)
next
  case (Some key)
  from resolved_entries [OF assms Some] obtain monitor exporter where
    k: "key \<noteq> []" "key \<in> set (map fst (monitors st))" "key \<in> set (map fst (exporters st))"
    and m: "map_of (monitors st) key = Some monitor" "map_of (exporters st) key = Some exporter"
    by blast
  obtain outcome exporter' where
    t: "check_drift_try eng monitor exporter request = (outcome, exporter')"
    by (cases "check_drift_try eng monitor exporter request") auto
  have "snd (check_drift eng st request) =
          st\<lparr>exporters := AList.update key exporter' (exporters st)\<rparr>"
    using Some k(1) m t
    by (simp add: check_drift_def not_model_key_def dict_lookup_def)
  then show ?thesis using assms k(2,3)
    by (simp add: service_inv_def keys_update_present)
qed

lemma service_inv_unregister:
  assumes "service_inv st"
  shows "service_inv (snd (unregister_model st name))"
proof (cases "find_model_key (monitors st) name")
  case None
  then show ?thesis using assms by (simp add: unregister_model_def not_model_key_def)
next
  case (Some key)
  from resolved_entries [OF assms Some] have
    k: "key \<noteq> []" "key \<in> set (map fst (monitors st))" "key \<in> set (map fst (exporters st))"
      "key \<in> set (map fst (reference_datasets st))"
    by blast+
  show ?thesis using assms
    by (simp add: resolved_unregister [OF Some k] service_inv_def keys_delete)
qed

lemma service_inv_step: "service_inv st \<Longrightarrow> service_inv (service_step eng st call)"
  by (cases call)
    (simp_all add: service_inv_register service_inv_run_monitoring service_inv_check_drift
      service_inv_unregister)

lemma service_inv_foldl:
  "service_inv st \<Longrightarrow> service_inv (foldl (service_step eng) st calls)"
  by (induction calls arbitrary: st) (simp_all add: service_inv_step)

lemma service_inv_reachable: "service_inv (service_after eng calls)"
  unfolding service_after_def by (rule service_inv_foldl [OF service_inv_initial])

text \<open>
  C5. Model-key resolution, for every state of the service and every requested name.
  A name that is itself a stored key resolves to that key; otherwise the name resolves
  to the first stored key, in insertion order, that consists of the name, a colon and
  a rest; when no stored key matches either way, each of the four model-scoped
  endpoints answers 404. The lookup returns a key exactly when the rule of the
  specification gives that key. In a state where the three dictionaries have the same
  keys and none is empty, each of the four endpoints then works on the entries stored
  under that key: running the monitoring runs the monitor and the exporter of that
  key and writes both back under it, the drift check runs the detector of that
  monitor and writes the exporter back, the history is the one of that monitor and is
  returned with the key, unregistering deletes that key from the three dictionaries
  and returns it; neither of the two POST endpoints answers 404. Every state the
  service reaches from its empty start by requests to its endpoints is such a state.
\<close>

theorem find_model_key_resolution:
  "(name \<in> set (map fst (monitors st)) \<longrightarrow> find_model_key (monitors st) name = Some name)
   \<and> (name \<notin> set (map fst (monitors st)) \<and> i < length (monitors st)
        \<and> (\<exists>rest. fst (monitors st ! i) = name @ '':'' @ rest)
        \<and> (\<forall>j<i. \<not> (\<exists>rest. fst (monitors st ! j) = name @ '':'' @ rest))
      \<longrightarrow> find_model_key (monitors st) name = Some (fst (monitors st ! i)))
   \<and> (name \<notin> set (map fst (monitors st))
        \<and> (\<forall>k \<in> set (map fst (monitors st)). \<not> (\<exists>rest. k = name @ '':'' @ rest))
      \<longrightarrow> find_model_key (monitors st) name = None
          \<and> http_status (fst (svc_run_monitoring eng st (rq\<lparr>mr_model_name := name\<rparr>))) = 404
          \<and> http_status (fst (check_drift eng st (dq\<lparr>dc_model_name := name\<rparr>))) = 404
          \<and> http_status (get_monitoring_history st name) = 404
          \<and> http_status (fst (unregister_model st name)) = 404)
   \<and> (find_model_key (monitors st) name = Some key
        \<longleftrightarrow> resolves_to (map fst (monitors st)) name key)
   \<and> (service_inv st \<and> resolves_to (map fst (monitors st)) name key \<longrightarrow>
        (\<exists>monitor exporter.
           map_of (monitors st) key = Some monitor \<and> map_of (exporters st) key = Some exporter
           \<and> svc_run_monitoring eng st (rq\<lparr>mr_model_name := name\<rparr>) =
               (case run_monitoring_try eng key monitor exporter (rq\<lparr>mr_model_name := name\<rparr>) of
                  (outcome, monitor', exporter') \<Rightarrow>
                    (except_500 outcome,
                     st\<lparr>monitors := AList.update key monitor' (monitors st),
                        exporters := AList.update key exporter' (exporters st)\<rparr>))
           \<and> check_drift eng st (dq\<lparr>dc_model_name := name\<rparr>) =
               (case check_drift_try eng monitor exporter (dq\<lparr>dc_model_name := name\<rparr>) of
                  (outcome, exporter') \<Rightarrow>
                    (except_500 outcome,
                     st\<lparr>exporters := AList.update key exporter' (exporters st)\<rparr>))
           \<and> get_monitoring_history st name =
               Inr (HistoryResponse key (monitoring_history monitor))
           \<and> unregister_model st name =
               (Inr (Unregistered key),
                st\<lparr>monitors := AList.delete key (monitors st),
                   exporters := AList.delete key (exporters st),
                   reference_datasets := AList.delete key (reference_datasets st)\<rparr>))
        \<and> http_status (fst (svc_run_monitoring eng st (rq\<lparr>mr_model_name := name\<rparr>))) \<noteq> 404
        \<and> http_status (fst (check_drift eng st (dq\<lparr>dc_model_name := name\<rparr>))) \<noteq> 404)
   \<and> service_inv (service_after eng calls)"
proof (intro conjI impI)
  assume "name \<in> set (map fst (monitors st))"
  then show "find_model_key (monitors st) name = Some name" by (rule find_model_key_exact)
next
  assume "name \<notin> set (map fst (monitors st)) \<and> i < length (monitors st)
        \<and> (\<exists>rest. fst (monitors st ! i) = name @ '':'' @ rest)
        \<and> (\<forall>j<i. \<not> (\<exists>rest. fst (monitors st ! j) = name @ '':'' @ rest))"
  then show "find_model_key (monitors st) name = Some (fst (monitors st ! i))"
    using find_model_key_first_prefixed by blast
next
  assume a: "name \<notin> set (map fst (monitors st))
        \<and> (\<forall>k \<in> set (map fst (monitors st)). \<not> (\<exists>rest. k = name @ '':'' @ rest))"
  then show n: "find_model_key (monitors st) name = None"
    using find_model_key_none by blast
  show "http_status (fst (svc_run_monitoring eng st (rq\<lparr>mr_model_name := name\<rparr>))) = 404"
    by (simp add: endpoints_404(1)[OF n] model_not_found_def)
  show "http_status (fst (check_drift eng st (dq\<lparr>dc_model_name := name\<rparr>))) = 404"
    by (simp add: endpoints_404(2)[OF n] model_not_found_def)
  show "http_status (get_monitoring_history st name) = 404"
    by (simp add: endpoints_404(3)[OF n] model_not_found_def)
  show "http_status (fst (unregister_model st name)) = 404"
    by (simp add: endpoints_404(4)[OF n] model_not_found_def)
next
  show "find_model_key (monitors st) name = Some key
          \<longleftrightarrow> resolves_to (map fst (monitors st)) name key"
    using find_model_key_resolves_to resolves_to_find_model_key by blast
next
  assume a: "service_inv st \<and> resolves_to (map fst (monitors st)) name key"
  then have f: "find_model_key (monitors st) name = Some key"
    by (simp add: resolves_to_find_model_key)
  from a have inv: "service_inv st" by simp
  from resolved_entries [OF inv f] obtain monitor exporter where
    k: "key \<noteq> []" "key \<in> set (map fst (monitors st))" "key \<in> set (map fst (exporters st))"
      "key \<in> set (map fst (reference_datasets st))"
    and m: "map_of (monitors st) key = Some monitor" "map_of (exporters st) key = Some exporter"
    by blast
  note e = resolved_endpoints [OF f k(1) m]
  show "\<exists>monitor exporter.
           map_of (monitors st) key = Some monitor \<and> map_of (exporters st) key = Some exporter
           \<and> svc_run_monitoring eng st (rq\<lparr>mr_model_name := name\<rparr>) =
               (case run_monitoring_try eng key monitor exporter (rq\<lparr>mr_model_name := name\<rparr>) of
                  (outcome, monitor', exporter') \<Rightarrow>
                    (except_500 outcome,
                     st\<lparr>monitors := AList.update key monitor' (monitors st),
                        exporters := AList.update key exporter' (exporters st)\<rparr>))
           \<and> check_drift eng st (dq\<lparr>dc_model_name := name\<rparr>) =
               (case check_drift_try eng monitor exporter (dq\<lparr>dc_model_name := name\<rparr>) of
                  (outcome, exporter') \<Rightarrow>
                    (except_500 outcome,
                     st\<lparr>exporters := AList.update key exporter' (exporters st)\<rparr>))
           \<and> get_monitoring_history st name =
               Inr (HistoryResponse key (monitoring_history monitor))
           \<and> unregister_model st name =
               (Inr (Unregistered key),
                st\<lparr>monitors := AList.delete key (monitors st),
                   exporters := AList.delete key (exporters st),
                   reference_datasets := AList.delete key (reference_datasets st)\<rparr>)"
    using m e(1) [of eng rq] e(2) [of eng dq] e(3) resolved_unregister [OF f k]
    by blast
  show "http_status (fst (svc_run_monitoring eng st (rq\<lparr>mr_model_name := name\<rparr>))) \<noteq> 404"
    by (simp add: e(1) split_beta http_status_except_500)
  show "http_status (fst (check_drift eng st (dq\<lparr>dc_model_name := name\<rparr>))) \<noteq> 404"
    by (simp add: e(2) split_beta http_status_except_500)
next
  show "service_inv (service_after eng calls)" by (rule service_inv_reachable)
qed

theorem find_model_key_resolution_witness:
  "find_model_key (monitors demo_state) ''b:2.0'' = Some ''b:2.0''
   \<and> find_model_key (monitors demo_state) ''b'' = Some ''b:1.0''
   \<and> find_model_key (monitors demo_state) ''c'' = None
   \<and> http_status (get_monitoring_history demo_state ''c'') = 404
   \<and> http_status (fst (unregister_model demo_state ''c'')) = 404
   \<and> service_inv demo_state
   \<and> resolves_to (map fst (monitors demo_state)) ''b'' ''b:1.0''
   \<and> get_monitoring_history demo_state ''b'' = Inr (HistoryResponse ''b:1.0'' [demo_result])
   \<and> unregister_model demo_state ''b'' =
       (Inr (Unregistered ''b:1.0''),
        \<lparr>monitors = [(''a:1.0'', demo_monitor), (''b:2.0'', demo_monitor)],
         exporters = [(''a:1.0'', ()), (''b:2.0'', ())],
         reference_datasets = [(''a:1.0'', demo_frame), (''b:2.0'', demo_frame)]\<rparr>)
   \<and> http_status (fst (svc_run_monitoring demo_engine demo_state
         (demo_run_no_data\<lparr>mr_model_name := ''b''\<rparr>))) \<noteq> 404"
proof -
  have k: "map fst (monitors demo_state) = [''a:1.0'', ''b:1.0'', ''b:2.0'']"
    by (simp add: demo_state_def)
  have n: "length (monitors demo_state) = 3" "fst (monitors demo_state ! 0) = ''a:1.0''"
    "fst (monitors demo_state ! Suc 0) = ''b:1.0''"
    by (simp_all add: demo_state_def)
  have 1: "find_model_key (monitors demo_state) ''b:2.0'' = Some ''b:2.0''"
    using find_model_key_resolution [THEN conjunct1, of "''b:2.0''" demo_state]
    by (simp add: k)
  have 2: "find_model_key (monitors demo_state) ''b'' = Some ''b:1.0''"
    using find_model_key_resolution [THEN conjunct2, THEN conjunct1, of "''b''" demo_state 1]
    by (simp add: k n)
  have 3: "find_model_key (monitors demo_state) ''c'' = None
      \<and> http_status (get_monitoring_history demo_state ''c'') = 404
      \<and> http_status (fst (unregister_model demo_state ''c'')) = 404"
    using find_model_key_resolution [THEN conjunct2, THEN conjunct2, THEN conjunct1,
        of "''c''" demo_state]
    by (simp add: k)
  have inv: "service_inv demo_state"
    by (simp add: service_inv_def demo_state_def)
  have res: "resolves_to (map fst (monitors demo_state)) ''b'' ''b:1.0''"
    unfolding k resolves_to_def
    by (intro disjI2 conjI exI [of _ 1]) (simp_all add: less_Suc_eq)
  have m: "map_of (monitors demo_state) ''b:1.0''
             = Some (demo_monitor\<lparr>monitoring_history := [demo_result]\<rparr>)"
    by (simp add: demo_state_def)
  from find_model_key_resolution [THEN conjunct2, THEN conjunct2, THEN conjunct2,
      THEN conjunct2, THEN conjunct1, rule_format, OF conjI, OF inv res,
      where eng = demo_engine and rq = demo_run_no_data]
  obtain monitor where
    mm: "map_of (monitors demo_state) ''b:1.0'' = Some monitor"
    and h: "get_monitoring_history demo_state ''b''
              = Inr (HistoryResponse ''b:1.0'' (monitoring_history monitor))"
    and u: "unregister_model demo_state ''b'' =
       (Inr (Unregistered ''b:1.0''),
        demo_state\<lparr>monitors := AList.delete ''b:1.0'' (monitors demo_state),
           exporters := AList.delete ''b:1.0'' (exporters demo_state),
           reference_datasets := AList.delete ''b:1.0'' (reference_datasets demo_state)\<rparr>)"
    and r: "http_status (fst (svc_run_monitoring demo_engine demo_state
         (demo_run_no_data\<lparr>mr_model_name := ''b''\<rparr>))) \<noteq> 404"
    by blast
  from mm m have "monitor = demo_monitor\<lparr>monitoring_history := [demo_result]\<rparr>" by simp
  with h have 4: "get_monitoring_history demo_state ''b''
      = Inr (HistoryResponse ''b:1.0'' [demo_result])" by simp
  have 5: "unregister_model demo_state ''b'' =
       (Inr (Unregistered ''b:1.0''),
        \<lparr>monitors = [(''a:1.0'', demo_monitor), (''b:2.0'', demo_monitor)],
         exporters = [(''a:1.0'', ()), (''b:2.0'', ())],
         reference_datasets = [(''a:1.0'', demo_frame), (''b:2.0'', demo_frame)]\<rparr>)"
    unfolding u by (simp add: demo_state_def)
  show ?thesis
    by (intro conjI) (fact 1 2 3 [THEN conjunct1] 3 [THEN conjunct2, THEN conjunct1]
        3 [THEN conjunct2, THEN conjunct2] inv res 4 5 r)+
qed

lemma register_model_unsupported_status:
  assumes "\<not> endswith (rm_reference_data_path request) ''.csv''"
      and "\<not> endswith (rm_reference_data_path request) ''.parquet''"
  shows "http_status (fst (register_model eng st request)) = 500"
  by (simp add: register_unsupported [OF assms])

lemma svc_run_monitoring_no_data:
  assumes "find_model_key (monitors st) (mr_model_name request) = Some key" and "key \<noteq> []"
      and "map_of (monitors st) key = Some monitor" and "map_of (exporters st) key = Some exporter"
      and "mr_current_data_path request = None \<or> mr_current_data_path request = Some []"
      and "mr_current_data request = None \<or> mr_current_data request = Some []"
  shows "fst (svc_run_monitoring eng st request) =
           Inl (HTTPException 500 (str_exn (HTTPException 400 ''No current data provided'')))"
  using assms(1-4)
  by (simp add: svc_run_monitoring_def not_model_key_def dict_lookup_def
      run_monitoring_try_no_data [OF assms(5,6)] except_500_def)

text \<open>
  C2. What the service answers to the two bad requests of the claim. Registering with
  the reference path \<^verbatim>\<open>reference.json\<close> (neither CSV nor Parquet) raises the 400
  exception inside the \<^verbatim>\<open>try\<close> block, the handler catches it and the response
  is 500 with the detail \<^verbatim>\<open>400: Unsupported file format\<close>. Running the monitoring of a
  registered model with neither a data path nor inline data is answered 500 in the
  same way.
\<close>

theorem service_bad_request_answered_500:
  "fst (register_model demo_engine demo_state demo_register_json) =
     Inl (HTTPException 500 ''400: Unsupported file format'')
   \<and> http_status (fst (register_model demo_engine demo_state demo_register_json)) = 500
   \<and> fst (svc_run_monitoring demo_engine demo_state demo_run_no_data) =
     Inl (HTTPException 500 ''400: No current data provided'')
   \<and> http_status (fst (svc_run_monitoring demo_engine demo_state demo_run_no_data)) = 500"
proof -
  have ext: "\<not> endswith (rm_reference_data_path demo_register_json) ''.csv''"
    "\<not> endswith (rm_reference_data_path demo_register_json) ''.parquet''"
    by (simp_all add: demo_register_json_def endswith_def suffix_def)
  have reg: "fst (register_model demo_engine demo_state demo_register_json) =
      Inl (HTTPException 500 ''400: Unsupported file format'')"
    by (simp add: register_unsupported [OF ext] digit_char_def)
  have key: "find_model_key (monitors demo_state) (mr_model_name demo_run_no_data) = Some ''a:1.0''"
    by (simp add: find_model_key_def demo_state_def demo_run_no_data_def startswith_def)
  have run: "fst (svc_run_monitoring demo_engine demo_state demo_run_no_data) =
      Inl (HTTPException 500 ''400: No current data provided'')"
    using svc_run_monitoring_no_data [OF key, of demo_monitor "()" demo_engine]
    by (simp add: demo_state_def demo_run_no_data_def digit_char_def)
  from reg run show ?thesis by simp
qed

lemma check_conditions_None_iff:
  "check_conditions cs = None \<longleftrightarrow> (\<forall>c \<in> set cs. \<not> condition_fails c)"
  by (induction cs) (auto simp add: condition_fails_def)

lemma check_conditions_False: "check_conditions cs = Some (b, reason) \<Longrightarrow> \<not> b"
  by (induction cs) (auto split: if_splits)

lemma check_conditions_first:
  assumes "i < length cs" and "condition_fails (cs ! i)" and "\<forall>j<i. \<not> condition_fails (cs ! j)"
  shows "check_conditions cs =
           Some (False, (if cond_type (cs ! i) = ''Available'' then ''Deployment not available: ''
                         else ''Deployment not progressing: '') @ str_opt (cond_reason (cs ! i)))"
  using assms
proof (induction cs arbitrary: i)
  case Nil
  then show ?case by simp
next
  case (Cons c cs)
  show ?case
  proof (cases i)
    case 0
    with Cons.prems show ?thesis by (auto simp add: condition_fails_def)
  next
    case (Suc k)
    with Cons.prems have nf: "\<not> condition_fails c" by auto
    from Suc Cons.prems have "k < length cs" "condition_fails (cs ! k)"
      "\<forall>j<k. \<not> condition_fails (cs ! j)" by auto
    from Cons.IH [OF this] nf Suc show ?thesis by (auto simp add: condition_fails_def)
  qed
qed

lemma check_deployment_health_healthy_iff:
  "check_deployment_health deployment = Inr (True, ''Healthy'') \<longleftrightarrow>
      (\<exists>d status spec. deployment = Some d \<and> dep_status d = Some status \<and> dep_spec d = Some spec
         \<and> int_or (ready_replicas status) 0 \<ge> int_or (replicas spec) 1
         \<and> int_or (available_replicas status) 0 \<ge> int_or (replicas spec) 1
         \<and> (\<forall>c \<in> set (dict_get (conditions status) []). \<not> condition_fails c))"
  by (auto simp add: check_deployment_health_def Let_def check_conditions_None_iff [symmetric]
      split: option.splits dest: check_conditions_False)

lemma check_deployment_health_reason_healthy:
  "check_deployment_health deployment = Inr (True, reason) \<Longrightarrow> reason = ''Healthy''"
  by (auto simp add: check_deployment_health_def Let_def
      split: option.splits if_splits dest: check_conditions_False)

lemma check_deployment_health_replicas:
  assumes "dep_status d = Some status" and "dep_spec d = Some spec"
  shows "int_or (ready_replicas status) 0 < int_or (replicas spec) 1 \<Longrightarrow>
           check_deployment_health (Some d) =
             Inr (False, ''Not all replicas ready: '' @ str_int (int_or (ready_replicas status) 0)
                    @ ''/'' @ str_int (int_or (replicas spec) 1))"
    and "int_or (ready_replicas status) 0 \<ge> int_or (replicas spec) 1 \<Longrightarrow>
         int_or (available_replicas status) 0 < int_or (replicas spec) 1 \<Longrightarrow>
           check_deployment_health (Some d) =
             Inr (False, ''Not all replicas available: '' @ str_int (int_or (available_replicas status) 0)
                    @ ''/'' @ str_int (int_or (replicas spec) 1))"
  using assms by (simp_all add: check_deployment_health_def Let_def)

lemma check_deployment_health_condition:
  assumes "dep_status d = Some status" and "dep_spec d = Some spec"
      and "int_or (ready_replicas status) 0 \<ge> int_or (replicas spec) 1"
      and "int_or (available_replicas status) 0 \<ge> int_or (replicas spec) 1"
      and "i < length (dict_get (conditions status) [])"
      and "condition_fails (dict_get (conditions status) [] ! i)"
      and "\<forall>j<i. \<not> condition_fails (dict_get (conditions status) [] ! j)"
  shows "check_deployment_health (Some d) =
           Inr (False, (if cond_type (dict_get (conditions status) [] ! i) = ''Available''
                        then ''Deployment not available: '' else ''Deployment not progressing: '')
                       @ str_opt (cond_reason (dict_get (conditions status) [] ! i)))"
  using assms(1-4) check_conditions_first [OF assms(5-7)]
  by (simp add: check_deployment_health_def Let_def)

text \<open>
  C3 (amended). The health check answers \<open>(True, ''Healthy'')\<close> exactly when the
  deployment is present, its status is reported, it has a spec, its ready and its
  available replicas (0 when unset) are at least the desired replicas, which are 1
  when the replica count is unset or zero, and no reported condition of type
  Available or Progressing has a status other than \<open>''True''\<close>. When it fails, the
  reason names the first violated check in the order: deployment absent, status
  unreported, replicas not ready, replicas not available, first failing condition.
\<close>

theorem check_deployment_health_amended:
  "(check_deployment_health deployment = Inr (True, ''Healthy'') \<longleftrightarrow>
      (\<exists>d status spec. deployment = Some d \<and> dep_status d = Some status \<and> dep_spec d = Some spec
         \<and> int_or (ready_replicas status) 0 \<ge> int_or (replicas spec) 1
         \<and> int_or (available_replicas status) 0 \<ge> int_or (replicas spec) 1
         \<and> (\<forall>c \<in> set (dict_get (conditions status) []). \<not> condition_fails c)))
   \<and> (\<forall>reason. check_deployment_health deployment = Inr (True, reason) \<longrightarrow> reason = ''Healthy'')
   \<and> (deployment = None \<longrightarrow>
        check_deployment_health deployment = Inr (False, ''Deployment not found''))
   \<and> (\<forall>d. deployment = Some d \<and> dep_status d = None \<longrightarrow>
        check_deployment_health deployment = Inr (False, ''Deployment status is None''))
   \<and> (\<forall>d status spec. deployment = Some d \<and> dep_status d = Some status \<and> dep_spec d = Some spec
        \<and> int_or (ready_replicas status) 0 < int_or (replicas spec) 1 \<longrightarrow>
        check_deployment_health deployment =
          Inr (False, ''Not all replicas ready: '' @ str_int (int_or (ready_replicas status) 0)
                 @ ''/'' @ str_int (int_or (replicas spec) 1)))
   \<and> (\<forall>d status spec. deployment = Some d \<and> dep_status d = Some status \<and> dep_spec d = Some spec
        \<and> int_or (ready_replicas status) 0 \<ge> int_or (replicas spec) 1
        \<and> int_or (available_replicas status) 0 < int_or (replicas spec) 1 \<longrightarrow>
        check_deployment_health deployment =
          Inr (False, ''Not all replicas available: '' @ str_int (int_or (available_replicas status) 0)
                 @ ''/'' @ str_int (int_or (replicas spec) 1)))
   \<and> (\<forall>d status spec i. deployment = Some d \<and> dep_status d = Some status \<and> dep_spec d = Some spec
        \<and> int_or (ready_replicas status) 0 \<ge> int_or (replicas spec) 1
        \<and> int_or (available_replicas status) 0 \<ge> int_or (replicas spec) 1
        \<and> i < length (dict_get (conditions status) [])
        \<and> condition_fails (dict_get (conditions status) [] ! i)
        \<and> (\<forall>j<i. \<not> condition_fails (dict_get (conditions status) [] ! j)) \<longrightarrow>
        check_deployment_health deployment =
          Inr (False, (if cond_type (dict_get (conditions status) [] ! i) = ''Available''
                       then ''Deployment not available: '' else ''Deployment not progressing: '')
                      @ str_opt (cond_reason (dict_get (conditions status) [] ! i))))"
proof (intro conjI allI impI)
  show "check_deployment_health deployment = Inr (True, ''Healthy'') \<longleftrightarrow>
      (\<exists>d status spec. deployment = Some d \<and> dep_status d = Some status \<and> dep_spec d = Some spec
         \<and> int_or (ready_replicas status) 0 \<ge> int_or (replicas spec) 1
         \<and> int_or (available_replicas status) 0 \<ge> int_or (replicas spec) 1
         \<and> (\<forall>c \<in> set (dict_get (conditions status) []). \<not> condition_fails c))"
    by (rule check_deployment_health_healthy_iff)
next
  fix reason assume "check_deployment_health deployment = Inr (True, reason)"
  then show "reason = ''Healthy''" by (rule check_deployment_health_reason_healthy)
next
  assume "deployment = None"
  then show "check_deployment_health deployment = Inr (False, ''Deployment not found'')"
    by (simp add: check_deployment_health_def)
next
  fix d assume "deployment = Some d \<and> dep_status d = None"
  then show "check_deployment_health deployment = Inr (False, ''Deployment status is None'')"
    by (simp add: check_deployment_health_def)
next
  fix d status spec
  assume "deployment = Some d \<and> dep_status d = Some status \<and> dep_spec d = Some spec
        \<and> int_or (ready_replicas status) 0 < int_or (replicas spec) 1"
  then show "check_deployment_health deployment =
          Inr (False, ''Not all replicas ready: '' @ str_int (int_or (ready_replicas status) 0)
                 @ ''/'' @ str_int (int_or (replicas spec) 1))"
    using check_deployment_health_replicas(1) by blast
next
  fix d status spec
  assume "deployment = Some d \<and> dep_status d = Some status \<and> dep_spec d = Some spec
        \<and> int_or (ready_replicas status) 0 \<ge> int_or (replicas spec) 1
        \<and> int_or (available_replicas status) 0 < int_or (replicas spec) 1"
  then show "check_deployment_health deployment =
          Inr (False, ''Not all replicas available: '' @ str_int (int_or (available_replicas status) 0)
                 @ ''/'' @ str_int (int_or (replicas spec) 1))"
    using check_deployment_health_replicas(2) by blast
next
  fix d status spec i
  assume "deployment = Some d \<and> dep_status d = Some status \<and> dep_spec d = Some spec
        \<and> int_or (ready_replicas status) 0 \<ge> int_or (replicas spec) 1
        \<and> int_or (available_replicas status) 0 \<ge> int_or (replicas spec) 1
        \<and> i < length (dict_get (conditions status) [])
        \<and> condition_fails (dict_get (conditions status) [] ! i)
        \<and> (\<forall>j<i. \<not> condition_fails (dict_get (conditions status) [] ! j))"
  then show "check_deployment_health deployment =
          Inr (False, (if cond_type (dict_get (conditions status) [] ! i) = ''Available''
                       then ''Deployment not available: '' else ''Deployment not progressing: '')
                      @ str_opt (cond_reason (dict_get (conditions status) [] ! i)))"
    using check_deployment_health_condition by blast
qed

theorem check_deployment_health_amended_witness:
  "check_deployment_health (Some (one_replica [available_true])) = Inr (True, ''Healthy'')
   \<and> check_deployment_health None = Inr (False, ''Deployment not found'')
   \<and> check_deployment_health (Some \<lparr>dep_spec = None, dep_status = None\<rparr>) =
       Inr (False, ''Deployment status is None'')
   \<and> check_deployment_health (Some scaled_to_zero) = Inr (False, ''Not all replicas ready: 0/1'')
   \<and> check_deployment_health (Some (one_replica [available_true, progressing_false])) =
       Inr (False, ''Deployment not progressing: None'')"
proof -
  note T = check_deployment_health_amended
  have 1: "check_deployment_health (Some (one_replica [available_true])) = Inr (True, ''Healthy'')"
  proof (rule T [THEN conjunct1, THEN iffD2])
    let ?st = "\<lparr>ready_replicas = Some 1, available_replicas = Some 1,
                conditions = Some [available_true]\<rparr>"
    let ?sp = "\<lparr>replicas = None\<rparr>"
    have "Some (one_replica [available_true]) = Some (one_replica [available_true])
        \<and> dep_status (one_replica [available_true]) = Some ?st
        \<and> dep_spec (one_replica [available_true]) = Some ?sp
        \<and> int_or (ready_replicas ?st) 0 \<ge> int_or (replicas ?sp) 1
        \<and> int_or (available_replicas ?st) 0 \<ge> int_or (replicas ?sp) 1
        \<and> (\<forall>c \<in> set (dict_get (conditions ?st) []). \<not> condition_fails c)"
      by (simp add: one_replica_def available_true_def int_or_def dict_get_def condition_fails_def)
    then show "\<exists>d status spec. Some (one_replica [available_true]) = Some d
        \<and> dep_status d = Some status \<and> dep_spec d = Some spec
        \<and> int_or (ready_replicas status) 0 \<ge> int_or (replicas spec) 1
        \<and> int_or (available_replicas status) 0 \<ge> int_or (replicas spec) 1
        \<and> (\<forall>c \<in> set (dict_get (conditions status) []). \<not> condition_fails c)"
      by blast
  qed
  have 2: "check_deployment_health None = Inr (False, ''Deployment not found'')"
    by (rule T [THEN conjunct2, THEN conjunct2, THEN conjunct1, rule_format]) simp
  have 3: "check_deployment_health (Some \<lparr>dep_spec = None, dep_status = None\<rparr>) =
       Inr (False, ''Deployment status is None'')"
    by (rule T [THEN conjunct2, THEN conjunct2, THEN conjunct2, THEN conjunct1, rule_format,
          of _ "\<lparr>dep_spec = None, dep_status = None\<rparr>"]) simp
  have 4: "check_deployment_health (Some scaled_to_zero) = Inr (False, ''Not all replicas ready: 0/1'')"
  proof -
    let ?st = "\<lparr>ready_replicas = None, available_replicas = None,
                conditions = Some [available_true]\<rparr>"
    let ?sp = "\<lparr>replicas = Some 0\<rparr>"
    have p: "Some scaled_to_zero = Some scaled_to_zero \<and> dep_status scaled_to_zero = Some ?st
        \<and> dep_spec scaled_to_zero = Some ?sp
        \<and> int_or (ready_replicas ?st) 0 < int_or (replicas ?sp) 1"
      by (simp add: scaled_to_zero_def int_or_def)
    from T [THEN conjunct2, THEN conjunct2, THEN conjunct2, THEN conjunct2, THEN conjunct1,
        rule_format, OF p]
    show ?thesis by (simp add: int_or_def str_int_def digit_char_def)
  qed
  have 5: "check_deployment_health (Some (one_replica [available_true, progressing_false])) =
       Inr (False, ''Deployment not progressing: None'')"
  proof -
    let ?d = "one_replica [available_true, progressing_false]"
    let ?st = "\<lparr>ready_replicas = Some 1, available_replicas = Some 1,
                conditions = Some [available_true, progressing_false]\<rparr>"
    let ?sp = "\<lparr>replicas = None\<rparr>"
    have p: "Some ?d = Some ?d \<and> dep_status ?d = Some ?st \<and> dep_spec ?d = Some ?sp
        \<and> int_or (ready_replicas ?st) 0 \<ge> int_or (replicas ?sp) 1
        \<and> int_or (available_replicas ?st) 0 \<ge> int_or (replicas ?sp) 1
        \<and> Suc 0 < length (dict_get (conditions ?st) [])
        \<and> condition_fails (dict_get (conditions ?st) [] ! Suc 0)
        \<and> (\<forall>j<Suc 0. \<not> condition_fails (dict_get (conditions ?st) [] ! j))"
      by (simp add: one_replica_def available_true_def progressing_false_def int_or_def
          dict_get_def condition_fails_def)
    from T [THEN conjunct2, THEN conjunct2, THEN conjunct2, THEN conjunct2, THEN conjunct2,
        THEN conjunct2, rule_format, OF p]
    show ?thesis by (simp add: dict_get_def progressing_false_def str_opt_def)
  qed
  from 1 2 3 4 5 show ?thesis by blast
qed

theorem spec_healthy_scaled_to_zero_counterexample:
  "spec_healthy (Some scaled_to_zero)
   \<and> check_deployment_health (Some scaled_to_zero) = Inr (False, ''Not all replicas ready: 0/1'')"
  by (simp add: spec_healthy_def scaled_to_zero_def available_true_def unset_default_def
      dict_get_def condition_fails_def check_deployment_health_def int_or_def Let_def
      str_int_def digit_char_def)

subsection \<open>Configuration validation\<close>

lemma validation_errors_empty_iff:
  "validation_errors config = [] \<longleftrightarrow>
     mc_type (cfg_model config) \<in> {''classification'', ''regression''}
     \<and> mc_algorithm (cfg_model config) \<in>
         {''random_forest'', ''xgboost'', ''linear_regression'', ''logistic_regression''}
     \<and> data_format (cfg_data config) \<in> {''csv'', ''parquet'', ''json''}
     \<and> 0 < test_size (cfg_data config) \<and> test_size (cfg_data config) < 1
     \<and> 0 < validation_size (cfg_data config) \<and> validation_size (cfg_data config) < 1
     \<and> numeric_strategy (cfg_preprocessing config) \<in> {''standard'', ''minmax'', ''robust''}
     \<and> categorical_strategy (cfg_preprocessing config) \<in> {''onehot'', ''ordinal'', ''label''}"
  unfolding validation_errors_def valid_algorithms_def append_is_Nil_conv
  by (simp only: if_split [where P = "\<lambda>x. x = []"] list.simps set_simps insert_iff empty_iff
      simp_thms not_not) blast

text \<open>
  C4. \<open>validate_config\<close> returns true exactly when the model type, the algorithm, the
  data format and the two preprocessing strategies are in their allowed sets and both
  split fractions are strictly between 0 and 1; it returns false for any configuration
  whose model type is \<open>unknown\<close>, and true for the configuration of the defaults.
\<close>

theorem validate_config_iff:
  "(fst (validate_config config) \<longleftrightarrow>
     mc_type (cfg_model config) \<in> {''classification'', ''regression''}
     \<and> mc_algorithm (cfg_model config) \<in>
         {''random_forest'', ''xgboost'', ''linear_regression'', ''logistic_regression''}
     \<and> data_format (cfg_data config) \<in> {''csv'', ''parquet'', ''json''}
     \<and> 0 < test_size (cfg_data config) \<and> test_size (cfg_data config) < 1
     \<and> 0 < validation_size (cfg_data config) \<and> validation_size (cfg_data config) < 1
     \<and> numeric_strategy (cfg_preprocessing config) \<in> {''standard'', ''minmax'', ''robust''}
     \<and> categorical_strategy (cfg_preprocessing config) \<in> {''onehot'', ''ordinal'', ''label''})
   \<and> \<not> fst (validate_config (config\<lparr>cfg_model := (cfg_model config)\<lparr>mc_type := ''unknown''\<rparr>\<rparr>))
   \<and> fst (validate_config default_config)"
proof -
  have v: "\<And>c. fst (validate_config c) \<longleftrightarrow> validation_errors c = []"
    by (simp add: validate_config_def Let_def)
  have "\<not> fst (validate_config (config\<lparr>cfg_model := (cfg_model config)\<lparr>mc_type := ''unknown''\<rparr>\<rparr>))"
    by (simp add: v validation_errors_empty_iff)
  moreover have "fst (validate_config default_config)"
    by (simp add: v validation_errors_empty_iff default_config_def)
  ultimately show ?thesis
    by (simp only: v validation_errors_empty_iff simp_thms)
qed

subsection \<open>Inference statistics\<close>

lemma stats_after_nonneg: "0 \<le> total_predictions (stats_after events)"
proof -
  have "0 \<le> total_predictions s \<Longrightarrow> 0 \<le> total_predictions (foldl apply_stats_event s events)" for s
  proof (induction events arbitrary: s)
    case Nil
    then show ?case by simp
  next
    case (Cons e es)
    have "0 \<le> total_predictions (apply_stats_event s e)"
      using Cons.prems by (cases e) (simp_all add: initial_stats_def)
    then show ?case using Cons.IH by simp
  qed
  then show ?thesis by (simp add: stats_after_def initial_stats_def)
qed

lemma get_inference_stats_nonneg:
  assumes "0 \<le> total_predictions s"
  shows "\<exists>view. get_inference_stats s = (Inr view, s)
           \<and> avg_inference_time_per_prediction view =
               (if total_predictions s = 0 then 0
                else total_inference_time s / real_of_int (total_predictions s))
           \<and> error_rate view =
               (if total_predictions s = 0 then 0
                else real_of_int (error_count s) / real_of_int (total_predictions s))
           \<and> view_total_predictions view = total_predictions s
           \<and> view_total_inference_time view = total_inference_time s
           \<and> view_error_count view = error_count s"
  using assms by (simp add: get_inference_stats_def truediv_def Let_def)

text \<open>
  C10. In every state the counters can reach, \<open>get_inference_stats\<close> returns (it does
  not raise \<open>ZeroDivisionError\<close>): with no predictions counted it reports 0 for the
  average time per prediction and for the error rate, otherwise the quotients of total
  time and of error count by the number of predictions; the counters are unchanged.
\<close>

theorem get_inference_stats_safe:
  "\<exists>view. get_inference_stats (stats_after events) = (Inr view, stats_after events)
     \<and> avg_inference_time_per_prediction view =
         (if total_predictions (stats_after events) = 0 then 0
          else total_inference_time (stats_after events)
                 / real_of_int (total_predictions (stats_after events)))
     \<and> error_rate view =
         (if total_predictions (stats_after events) = 0 then 0
          else real_of_int (error_count (stats_after events))
                 / real_of_int (total_predictions (stats_after events)))"
  using get_inference_stats_nonneg [OF stats_after_nonneg, of events] by blast

subsection \<open>Baseline monitor: drift detection\<close>

lemma effective_std_nonzero: "effective_std stats feature \<noteq> 0"
  by (simp add: effective_std_def split: option.splits)

lemma drift_step_total:
  "drift_step stats threshold (feature, m) (detected, drifted, scores) =
     (case map_of (feature_means stats) feature of
        None \<Rightarrow> Inr (detected, drifted, scores)
      | Some bm \<Rightarrow>
          Inr (detected \<or> \<bar>m - bm\<bar> / effective_std stats feature > threshold,
               drifted @ (if \<bar>m - bm\<bar> / effective_std stats feature > threshold then [feature] else []),
               AList.update feature (\<bar>m - bm\<bar> / effective_std stats feature) scores))"
  by (simp add: drift_step_def truediv_def effective_std_def dict_get_def Let_def
      split: option.splits)

lemma drift_loop_result:
  "\<exists>scores'. drift_loop stats threshold columns (detected, drifted, scores) =
     Inr (detected \<or> (\<exists>fs \<in> set (List.map_filter (scored stats) columns). snd fs > threshold),
          drifted @ map fst (filter (\<lambda>fs. snd fs > threshold) (List.map_filter (scored stats) columns)),
          scores')
   \<and> map_of scores' = map_of scores ++ map_of (rev (List.map_filter (scored stats) columns))"
proof (induction columns arbitrary: detected drifted scores)
  case Nil
  then show ?case by (simp add: List.map_filter_simps)
next
  case (Cons column columns)
  obtain feature m where c: "column = (feature, m)" by (cases column)
  show ?case
  proof (cases "map_of (feature_means stats) feature")
    case None
    then have s: "scored stats column = None" by (simp add: scored_def c)
    from None have "drift_step stats threshold column (detected, drifted, scores) =
        Inr (detected, drifted, scores)"
      by (simp add: c drift_step_total)
    with Cons.IH [of detected drifted scores] s show ?thesis
      by (simp add: List.map_filter_simps)
  next
    case (Some bm)
    let ?sc = "\<bar>m - bm\<bar> / effective_std stats feature"
    from Some have s: "scored stats column = Some (feature, ?sc)" by (simp add: scored_def c)
    from Some have st: "drift_step stats threshold column (detected, drifted, scores) =
        Inr (detected \<or> ?sc > threshold, drifted @ (if ?sc > threshold then [feature] else []),
             AList.update feature ?sc scores)"
      by (simp add: c drift_step_total)
    from Cons.IH [of "detected \<or> ?sc > threshold"
        "drifted @ (if ?sc > threshold then [feature] else [])" "AList.update feature ?sc scores"]
    obtain scores' where
      l: "drift_loop stats threshold columns (detected \<or> ?sc > threshold,
            drifted @ (if ?sc > threshold then [feature] else []), AList.update feature ?sc scores) =
          Inr ((detected \<or> ?sc > threshold)
                 \<or> (\<exists>fs \<in> set (List.map_filter (scored stats) columns). snd fs > threshold),
               (drifted @ (if ?sc > threshold then [feature] else []))
                 @ map fst (filter (\<lambda>fs. snd fs > threshold) (List.map_filter (scored stats) columns)),
               scores')"
      and m: "map_of scores' = map_of (AList.update feature ?sc scores)
                ++ map_of (rev (List.map_filter (scored stats) columns))"
      by blast
    have "map_of scores' =
        map_of scores ++ map_of (rev (List.map_filter (scored stats) (column # columns)))"
      using m s by (simp add: List.map_filter_simps update_conv' fun_eq_iff map_add_def
          split: option.splits)
    with l st s show ?thesis
      by (auto simp add: List.map_filter_simps)
  qed
qed


lemma set_map_filter_scored:
  "set (List.map_filter (scored stats) columns) =
     {(f, \<bar>m - bm\<bar> / effective_std stats f) | f m bm.
        (f, m) \<in> set columns \<and> map_of (feature_means stats) f = Some bm}"
  by (induction columns) (auto simp add: scored_def split: option.splits)

lemma fst_map_filter_scored:
  "map fst (List.map_filter (scored stats) columns) =
     filter (\<lambda>f. map_of (feature_means stats) f \<noteq> None) (map fst columns)"
  by (induction columns) (auto simp add: scored_def split: option.splits)

lemma distinct_scored:
  "distinct (map fst columns) \<Longrightarrow> distinct (map fst (List.map_filter (scored stats) columns))"
  by (simp add: fst_map_filter_scored)

lemma detect_drift_with_baseline:
  assumes b: "baseline self = Some stats"
  shows "\<exists>scores. detect_drift lib self current_data =
           Inr \<lparr>drift_detected =
                  (\<exists>fs \<in> set (List.map_filter (scored stats) (frame_mean lib current_data)).
                     snd fs > drift_threshold self),
                drift_message = None,
                drifted_features =
                  Some (map fst (filter (\<lambda>fs. snd fs > drift_threshold self)
                          (List.map_filter (scored stats) (frame_mean lib current_data)))),
                drift_scores = Some scores\<rparr>
         \<and> map_of scores =
             map_of (rev (List.map_filter (scored stats) (frame_mean lib current_data)))"
proof -
  from drift_loop_result [of stats "drift_threshold self" "frame_mean lib current_data" False "[]" "[]"]
  obtain scores where
    "drift_loop stats (drift_threshold self) (frame_mean lib current_data) (False, [], []) =
       Inr (False \<or> (\<exists>fs \<in> set (List.map_filter (scored stats) (frame_mean lib current_data)).
                       snd fs > drift_threshold self),
            [] @ map fst (filter (\<lambda>fs. snd fs > drift_threshold self)
                    (List.map_filter (scored stats) (frame_mean lib current_data))),
            scores)"
    and "map_of scores = map_of [] ++ map_of (rev (List.map_filter (scored stats)
                                                    (frame_mean lib current_data)))"
    by blast
  then show ?thesis using b by (simp add: detect_drift_def)
qed

text \<open>
  C6 (amended). Without a baseline \<open>detect_drift\<close> reports no drift. With a baseline
  (and pairwise different column names) it returns a result in which every current
  feature that has a baseline mean gets the score
  \<open>\<bar>current_mean - baseline_mean\<bar> / std\<close>, where \<open>std\<close> is the baseline standard
  deviation of the feature, or 1.0 when that is zero or missing; the divisor is never
  zero. With the threshold 0.1 of the constructor such a feature is listed as drifted
  exactly when its score exceeds 0.1, only such features are listed, and the result
  is marked drifted exactly when at least one feature is listed.
\<close>

theorem detect_drift_amended:
  assumes thr: "drift_threshold self = 0.1"
  shows "(baseline self = None \<longrightarrow>
           (\<exists>r. detect_drift lib self current_data = Inr r \<and> \<not> drift_detected r))
       \<and> (baseline self = Some stats \<and> distinct (map fst (frame_mean lib current_data)) \<longrightarrow>
           (\<exists>r scores drifted.
              detect_drift lib self current_data = Inr r
              \<and> drift_scores r = Some scores \<and> drifted_features r = Some drifted
              \<and> (\<forall>f m bm. (f, m) \<in> set (frame_mean lib current_data)
                     \<and> map_of (feature_means stats) f = Some bm \<longrightarrow>
                   effective_std stats f \<noteq> 0
                   \<and> map_of scores f = Some (\<bar>m - bm\<bar> / effective_std stats f)
                   \<and> (f \<in> set drifted \<longleftrightarrow> \<bar>m - bm\<bar> / effective_std stats f > 0.1))
              \<and> (\<forall>f \<in> set drifted. \<exists>m bm. (f, m) \<in> set (frame_mean lib current_data)
                     \<and> map_of (feature_means stats) f = Some bm)
              \<and> (drift_detected r \<longleftrightarrow> drifted \<noteq> [])))"
proof (intro conjI impI)
  assume "baseline self = None"
  then show "\<exists>r. detect_drift lib self current_data = Inr r \<and> \<not> drift_detected r"
    by (simp add: detect_drift_def)
next
  assume a: "baseline self = Some stats \<and> distinct (map fst (frame_mean lib current_data))"
  let ?cols = "frame_mean lib current_data"
  let ?xs = "List.map_filter (scored stats) ?cols"
  let ?drifted = "map fst (filter (\<lambda>fs. snd fs > drift_threshold self) ?xs)"
  from a have b: "baseline self = Some stats" and d: "distinct (map fst ?cols)" by simp_all
  from detect_drift_with_baseline [OF b, of lib current_data]
  obtain scores where
    r: "detect_drift lib self current_data =
          Inr \<lparr>drift_detected = (\<exists>fs \<in> set ?xs. snd fs > drift_threshold self),
               drift_message = None, drifted_features = Some ?drifted,
               drift_scores = Some scores\<rparr>"
    and m: "map_of scores = map_of (rev ?xs)"
    by blast
  have dx: "distinct (map fst ?xs)" using d by (rule distinct_scored)
  have score: "map_of scores f = Some (\<bar>m - bm\<bar> / effective_std stats f)"
    and flag: "f \<in> set ?drifted \<longleftrightarrow> \<bar>m - bm\<bar> / effective_std stats f > 0.1"
    if "(f, m) \<in> set ?cols" and "map_of (feature_means stats) f = Some bm" for f m bm
  proof -
    from that have mem: "(f, \<bar>m - bm\<bar> / effective_std stats f) \<in> set ?xs"
      by (auto simp add: set_map_filter_scored)
    have "distinct (map fst (rev ?xs))" using dx by (simp add: rev_map [symmetric])
    moreover have "(f, \<bar>m - bm\<bar> / effective_std stats f) \<in> set (rev ?xs)" using mem by simp
    ultimately show "map_of scores f = Some (\<bar>m - bm\<bar> / effective_std stats f)"
      unfolding m by (rule map_of_is_SomeI)
    have "f \<in> set ?drifted \<longleftrightarrow> (\<exists>s. (f, s) \<in> set ?xs \<and> s > drift_threshold self)"
      by force
    also have "\<dots> \<longleftrightarrow> \<bar>m - bm\<bar> / effective_std stats f > drift_threshold self"
    proof
      assume "\<exists>s. (f, s) \<in> set ?xs \<and> s > drift_threshold self"
      then obtain s where s: "(f, s) \<in> set ?xs" "s > drift_threshold self" by blast
      from dx s(1) mem have "s = \<bar>m - bm\<bar> / effective_std stats f"
        by (metis map_of_is_SomeI option.inject)
      with s(2) show "\<bar>m - bm\<bar> / effective_std stats f > drift_threshold self" by simp
    next
      assume "\<bar>m - bm\<bar> / effective_std stats f > drift_threshold self"
      with mem show "\<exists>s. (f, s) \<in> set ?xs \<and> s > drift_threshold self" by blast
    qed
    finally show "f \<in> set ?drifted \<longleftrightarrow> \<bar>m - bm\<bar> / effective_std stats f > 0.1"
      by (simp add: thr)
  qed
  have only: "\<exists>m bm. (f, m) \<in> set ?cols \<and> map_of (feature_means stats) f = Some bm"
    if "f \<in> set ?drifted" for f
  proof -
    from that obtain s where "(f, s) \<in> set ?xs" by force
    then show ?thesis by (auto simp add: set_map_filter_scored)
  qed
  have det: "(\<exists>fs \<in> set ?xs. snd fs > drift_threshold self) \<longleftrightarrow> ?drifted \<noteq> []"
    by (simp add: filter_empty_conv)
  let ?r = "\<lparr>drift_detected = (\<exists>fs \<in> set ?xs. snd fs > drift_threshold self),
               drift_message = None, drifted_features = Some ?drifted,
               drift_scores = Some scores\<rparr>"
  have s1: "drift_scores ?r = Some scores" and s2: "drifted_features ?r = Some ?drifted"
    by simp_all
  have A: "\<forall>f m bm. (f, m) \<in> set (frame_mean lib current_data)
                     \<and> map_of (feature_means stats) f = Some bm \<longrightarrow>
                   effective_std stats f \<noteq> 0
                   \<and> map_of scores f = Some (\<bar>m - bm\<bar> / effective_std stats f)
                   \<and> (f \<in> set ?drifted \<longleftrightarrow> \<bar>m - bm\<bar> / effective_std stats f > 0.1)"
    using score flag effective_std_nonzero by blast
  have B: "\<forall>f \<in> set ?drifted. \<exists>m bm. (f, m) \<in> set (frame_mean lib current_data)
                     \<and> map_of (feature_means stats) f = Some bm"
    using only by blast
  have D: "drift_detected ?r \<longleftrightarrow> ?drifted \<noteq> []"
    using det by simp
  show "\<exists>r scores drifted.
              detect_drift lib self current_data = Inr r
              \<and> drift_scores r = Some scores \<and> drifted_features r = Some drifted
              \<and> (\<forall>f m bm. (f, m) \<in> set (frame_mean lib current_data)
                     \<and> map_of (feature_means stats) f = Some bm \<longrightarrow>
                   effective_std stats f \<noteq> 0
                   \<and> map_of scores f = Some (\<bar>m - bm\<bar> / effective_std stats f)
                   \<and> (f \<in> set drifted \<longleftrightarrow> \<bar>m - bm\<bar> / effective_std stats f > 0.1))
              \<and> (\<forall>f \<in> set drifted. \<exists>m bm. (f, m) \<in> set (frame_mean lib current_data)
                     \<and> map_of (feature_means stats) f = Some bm)
              \<and> (drift_detected r \<longleftrightarrow> drifted \<noteq> [])"
    by (intro exI conjI) (fact r s1 s2 A B D)+
qed

lemma demo_detect:
  "detect_drift demo_numlib demo_baseline_monitor demo_columns =
     Inr \<lparr>drift_detected = True, drift_message = None, drifted_features = Some [''x''],
          drift_scores = Some [(''x'', 0.16), (''y'', 0.05)]\<rparr>"
  by (simp add: detect_drift_def demo_numlib_def demo_baseline_monitor_def
      new_baseline_monitor_def demo_columns_def demo_baseline_def drift_step_def truediv_def
      dict_get_def Let_def)

theorem detect_drift_amended_witness:
  "drift_threshold demo_baseline_monitor = 0.1
   \<and> baseline demo_baseline_monitor = Some demo_baseline
   \<and> distinct (map fst (frame_mean demo_numlib demo_columns))
   \<and> (\<exists>r scores drifted.
        detect_drift demo_numlib demo_baseline_monitor demo_columns = Inr r
        \<and> drift_scores r = Some scores \<and> drifted_features r = Some drifted
        \<and> map_of scores ''x'' = Some 0.16 \<and> ''x'' \<in> set drifted
        \<and> map_of scores ''y'' = Some 0.05 \<and> ''y'' \<notin> set drifted
        \<and> drift_detected r)"
proof -
  have thr: "drift_threshold demo_baseline_monitor = 0.1"
    by (simp add: demo_baseline_monitor_def new_baseline_monitor_def)
  have hyp: "baseline demo_baseline_monitor = Some demo_baseline
      \<and> distinct (map fst (frame_mean demo_numlib demo_columns))"
    by (simp add: demo_baseline_monitor_def demo_numlib_def demo_columns_def)
  from detect_drift_amended [OF thr, where stats = demo_baseline and lib = demo_numlib
      and current_data = demo_columns, THEN conjunct2, rule_format, OF hyp]
  obtain r scores drifted where
    r: "detect_drift demo_numlib demo_baseline_monitor demo_columns = Inr r"
      "drift_scores r = Some scores" "drifted_features r = Some drifted"
    and sc: "\<And>f m bm. (f, m) \<in> set (frame_mean demo_numlib demo_columns)
                \<and> map_of (feature_means demo_baseline) f = Some bm \<Longrightarrow>
              map_of scores f = Some (\<bar>m - bm\<bar> / effective_std demo_baseline f)
              \<and> (f \<in> set drifted \<longleftrightarrow> \<bar>m - bm\<bar> / effective_std demo_baseline f > 0.1)"
    and det: "drift_detected r \<longleftrightarrow> drifted \<noteq> []"
    by blast
  have x: "(''x'', 0.08) \<in> set (frame_mean demo_numlib demo_columns)
      \<and> map_of (feature_means demo_baseline) ''x'' = Some 0"
    and y: "(''y'', 1.05) \<in> set (frame_mean demo_numlib demo_columns)
      \<and> map_of (feature_means demo_baseline) ''y'' = Some 1"
    by (simp_all add: demo_numlib_def demo_columns_def demo_baseline_def)
  have ex: "effective_std demo_baseline ''x'' = 0.5" and ey: "effective_std demo_baseline ''y'' = 1"
    by (simp_all add: effective_std_def demo_baseline_def)
  from sc [OF x] have x': "map_of scores ''x'' = Some 0.16" "''x'' \<in> set drifted"
    by (simp_all add: ex)
  from sc [OF y] have y': "map_of scores ''y'' = Some 0.05" "''y'' \<notin> set drifted"
    by (simp_all add: ey)
  from x'(2) det have "drift_detected r" by auto
  with r x' y' thr hyp show ?thesis by blast
qed

theorem detect_drift_floor_counterexample:
  "detect_drift demo_numlib demo_baseline_monitor demo_columns =
     Inr \<lparr>drift_detected = True, drift_message = None, drifted_features = Some [''x''],
          drift_scores = Some [(''x'', 0.16), (''y'', 0.05)]\<rparr>
   \<and> map_of (feature_means demo_baseline) ''x'' = Some 0
   \<and> map_of (feature_stds demo_baseline) ''x'' = Some 0.5
   \<and> map_of demo_columns ''x'' = Some 0.08
   \<and> spec_floored_score 0.08 0 0.5 = 0.08
   \<and> \<not> spec_floored_score 0.08 0 0.5 > 0.1"
proof -
  have "map_of (feature_means demo_baseline) ''x'' = Some 0
      \<and> map_of (feature_stds demo_baseline) ''x'' = Some 0.5
      \<and> map_of demo_columns ''x'' = Some 0.08
      \<and> spec_floored_score 0.08 0 0.5 = 0.08
      \<and> \<not> spec_floored_score 0.08 0 0.5 > 0.1"
    by (simp add: spec_floored_score_def demo_baseline_def demo_columns_def)
  with demo_detect show ?thesis by (rule conjI)
qed

subsection \<open>Histories of the two monitors\<close>

lemma last_n_append:
  "drop (length (drop (length h - n) h @ r) - n) (drop (length h - n) h @ r) =
   drop (length (h @ r) - n) (h @ (r :: 'a list))"
proof (cases "length h \<le> n")
  case True
  then show ?thesis by simp
next
  case False
  then have "length (h @ r) - n = (length h - n) + length r" by simp
  then have "drop (length (h @ r) - n) (h @ r) = drop (length r) (drop (length h - n) (h @ r))"
    by (simp add: add.commute)
  also have "\<dots> = drop (length r) (drop (length h - n) h @ r)" by simp
  finally show ?thesis using False by simp
qed

lemma log_prediction_history:
  "prediction_history (log_prediction lib self call) =
     drop (length (prediction_history self @ [make_record lib call]) - 1000)
          (prediction_history self @ [make_record lib call])"
  by (simp add: log_prediction_def Let_def)

lemma log_predictions_history:
  "length (prediction_history self) \<le> 1000 \<Longrightarrow>
   prediction_history (log_predictions lib self calls) =
     drop (length (prediction_history self @ map (make_record lib) calls) - 1000)
          (prediction_history self @ map (make_record lib) calls)"
proof (induction calls arbitrary: self)
  case Nil
  then show ?case by (simp add: log_predictions_def)
next
  case (Cons call calls)
  let ?h1 = "prediction_history self @ [make_record lib call]"
  let ?self1 = "log_prediction lib self call"
  have h1: "prediction_history ?self1 = drop (length ?h1 - 1000) ?h1"
    by (rule log_prediction_history)
  then have "length (prediction_history ?self1) \<le> 1000" by simp
  from Cons.IH [OF this]
  have "prediction_history (log_predictions lib ?self1 calls) =
      drop (length (drop (length ?h1 - 1000) ?h1 @ map (make_record lib) calls) - 1000)
           (drop (length ?h1 - 1000) ?h1 @ map (make_record lib) calls)"
    by (simp only: h1)
  also have "\<dots> = drop (length (?h1 @ map (make_record lib) calls) - 1000)
                       (?h1 @ map (make_record lib) calls)"
    by (rule last_n_append)
  finally show ?case by (simp add: log_predictions_def)
qed

lemma run_monitoring_total:
  assumes "engine_returns eng"
  shows "\<exists>r. run_monitoring eng self current_data incl =
               (Inr r, self\<lparr>monitoring_history := monitoring_history self @ [r]\<rparr>)"
proof -
  from assms obtain drift where d: "detect_data_drift eng (reference_data self) current_data
      (Some (feature_columns self)) = Inr drift"
    unfolding engine_returns_def by blast
  from assms obtain q where q: "quality_report eng (model_type self) (reference_data self)
      current_data = Inr q"
    unfolding engine_returns_def by blast
  show ?thesis
    unfolding run_monitoring_def Let_def
    by (simp add: d q check_model_performance_def)
qed

lemma run_monitoring_calls_length:
  assumes "engine_returns eng"
  shows "length (monitoring_history (run_monitoring_calls eng self calls)) =
           length (monitoring_history self) + length calls"
proof (induction calls arbitrary: self)
  case Nil
  then show ?case by (simp add: run_monitoring_calls_def)
next
  case (Cons call calls)
  from run_monitoring_total [OF assms, of self "fst call" "snd call"]
  obtain r where "run_monitoring eng self (fst call) (snd call) =
      (Inr r, self\<lparr>monitoring_history := monitoring_history self @ [r]\<rparr>)" by blast
  then have "run_monitoring_calls eng self (call # calls) =
      run_monitoring_calls eng (self\<lparr>monitoring_history := monitoring_history self @ [r]\<rparr>) calls"
    by (simp add: run_monitoring_calls_def)
  then show ?case using Cons.IH by simp
qed

text \<open>
  C9. The history of the baseline monitor is capped: starting from a history of at most
  1000 records (the constructor's is empty), after any sequence of \<open>log_prediction\<close>
  calls the history consists of the last 1000 of all the records appended so far (all of
  them when there are fewer), so it is a suffix of them and never longer than 1000. A
  call of the statistical monitor's \<open>run_monitoring\<close> that returns has appended exactly
  one entry, its result, to the monitor's history; with an engine that does not raise,
  the history after n calls is n entries longer, whatever n is.
\<close>

theorem monitor_histories:
  "(length (prediction_history self) \<le> 1000 \<longrightarrow>
      prediction_history (log_predictions lib self calls) =
        drop (length (prediction_history self @ map (make_record lib) calls) - 1000)
             (prediction_history self @ map (make_record lib) calls)
      \<and> suffix (prediction_history (log_predictions lib self calls))
               (prediction_history self @ map (make_record lib) calls)
      \<and> length (prediction_history (log_predictions lib self calls)) \<le> 1000)
   \<and> (run_monitoring eng monitor current_data incl = (Inr r, monitor') \<longrightarrow>
        monitoring_history monitor' = monitoring_history monitor @ [r])
   \<and> (engine_returns eng \<longrightarrow>
        length (monitoring_history (run_monitoring_calls eng monitor runs)) =
          length (monitoring_history monitor) + length runs)"
proof (intro conjI impI)
  assume a: "length (prediction_history self) \<le> 1000"
  show h: "prediction_history (log_predictions lib self calls) =
        drop (length (prediction_history self @ map (make_record lib) calls) - 1000)
             (prediction_history self @ map (make_record lib) calls)"
    using a by (rule log_predictions_history)
  show "suffix (prediction_history (log_predictions lib self calls))
               (prediction_history self @ map (make_record lib) calls)"
    unfolding h by (rule suffix_drop)
  show "length (prediction_history (log_predictions lib self calls)) \<le> 1000"
    unfolding h by simp
next
  assume "run_monitoring eng monitor current_data incl = (Inr r, monitor')"
  from run_monitoring_Inr [OF this]
  show "monitoring_history monitor' = monitoring_history monitor @ [r]" by simp
next
  assume "engine_returns eng"
  then show "length (monitoring_history (run_monitoring_calls eng monitor runs)) =
          length (monitoring_history monitor) + length runs"
    by (rule run_monitoring_calls_length)
qed

lemma demo_engine_returns: "engine_returns demo_engine"
  by (simp add: engine_returns_def demo_engine_def)

theorem monitor_histories_witness:
  "length (prediction_history (new_baseline_monitor ''m'')) \<le> 1000
   \<and> length (prediction_history
        (log_predictions demo_numlib (new_baseline_monitor ''m'') (replicate 1001 demo_call))) = 1000
   \<and> prediction_history
        (log_predictions demo_numlib (new_baseline_monitor ''m'') [demo_call, demo_call]) =
       [make_record demo_numlib demo_call, make_record demo_numlib demo_call]
   \<and> monitoring_history (demo_monitor\<lparr>monitoring_history := [demo_result]\<rparr>) =
       monitoring_history demo_monitor @ [demo_result]
   \<and> engine_returns demo_engine
   \<and> length (monitoring_history
        (run_monitoring_calls demo_engine demo_monitor (replicate 2000 (demo_frame, True)))) = 2000"
proof -
  note T = monitor_histories
  have e: "length (prediction_history (new_baseline_monitor ''m'')) \<le> 1000"
    by (simp add: new_baseline_monitor_def)
  have h0: "prediction_history (new_baseline_monitor ''m'') = []"
    by (simp add: new_baseline_monitor_def)
  from T [THEN conjunct1, rule_format, OF e, THEN conjunct1,
      of demo_numlib "replicate 1001 demo_call"]
  have 1: "length (prediction_history
        (log_predictions demo_numlib (new_baseline_monitor ''m'') (replicate 1001 demo_call))) = 1000"
    by (simp add: h0)
  from T [THEN conjunct1, rule_format, OF e, THEN conjunct1,
      of demo_numlib "[demo_call, demo_call]"]
  have 2: "prediction_history
        (log_predictions demo_numlib (new_baseline_monitor ''m'') [demo_call, demo_call]) =
       [make_record demo_numlib demo_call, make_record demo_numlib demo_call]"
    by (simp add: h0)
  from T [THEN conjunct2, THEN conjunct1, rule_format, OF demo_run]
  have 3: "monitoring_history (demo_monitor\<lparr>monitoring_history := [demo_result]\<rparr>) =
       monitoring_history demo_monitor @ [demo_result]" .
  from T [THEN conjunct2, THEN conjunct2, rule_format, OF demo_engine_returns,
      of demo_monitor "replicate 2000 (demo_frame, True)"]
  have 4: "length (monitoring_history
        (run_monitoring_calls demo_engine demo_monitor (replicate 2000 (demo_frame, True)))) = 2000"
    by (simp add: demo_monitor_def)
  from e 1 2 3 4 demo_engine_returns show ?thesis by blast
qed

subsection \<open>Deep merge\<close>

lemma deep_merge_Cons:
  "deep_merge result ((key, val) # items) =
     deep_merge (AList.update key (merged_value (map_of result key) val) result) items"
proof (cases val)
  case (Leaf x)
  then show ?thesis by (cases "map_of result key") simp_all
next
  case (Dict d)
  show ?thesis
  proof (cases "map_of result key")
    case None
    with Dict show ?thesis by simp
  next
    case (Some old)
    with Dict show ?thesis by (cases old) simp_all
  qed
qed

lemma deep_merge_other_key:
  "k \<notin> fst ` set override \<Longrightarrow> map_of (deep_merge base override) k = map_of base k"
proof (induction override arbitrary: base)
  case Nil
  then show ?case by simp
next
  case (Cons item items)
  obtain key val where i: "item = (key, val)" by (cases item)
  from Cons.prems i have ne: "k \<noteq> key" and rest: "k \<notin> fst ` set items" by auto
  have "map_of (deep_merge base (item # items)) k =
      map_of (AList.update key (merged_value (map_of base key) val) base) k"
    unfolding i deep_merge_Cons using Cons.IH [OF rest] by simp
  also have "\<dots> = map_of base k" using ne by (simp add: update_conv')
  finally show ?case .
qed

lemma deep_merge_override_key:
  "distinct (map fst override) \<Longrightarrow> (k, v) \<in> set override \<Longrightarrow>
   map_of (deep_merge base override) k = Some (merged_value (map_of base k) v)"
proof (induction override arbitrary: base)
  case Nil
  then show ?case by simp
next
  case (Cons item items)
  obtain key val where i: "item = (key, val)" by (cases item)
  let ?base' = "AList.update key (merged_value (map_of base key) val) base"
  have step: "deep_merge base (item # items) = deep_merge ?base' items"
    unfolding i by (rule deep_merge_Cons)
  from Cons.prems(1) i have d: "distinct (map fst items)" and nk: "key \<notin> fst ` set items"
    by auto
  show ?case
  proof (cases "k = key")
    case True
    with Cons.prems i nk have "v = val" by (auto simp add: image_iff)
    moreover have "map_of (deep_merge ?base' items) key = map_of ?base' key"
      using nk by (rule deep_merge_other_key)
    ultimately show ?thesis using True step by (simp add: update_conv')
  next
    case False
    with Cons.prems(2) i have "(k, v) \<in> set items" by auto
    from Cons.IH [OF d this, of ?base'] False step show ?thesis
      by (simp add: update_conv')
  qed
qed

lemma deep_merge_keys:
  "fst ` set (deep_merge base override) = fst ` set base \<union> fst ` set override"
proof (induction override arbitrary: base)
  case Nil
  then show ?case by simp
next
  case (Cons item items)
  obtain key val where i: "item = (key, val)" by (cases item)
  show ?case unfolding i deep_merge_Cons Cons.IH
    by (auto simp add: dom_update [unfolded dom_map_of_conv_image_fst])
qed

text \<open>
  C8. For dictionaries \<open>base\<close> and \<open>override\<close> (the keys of \<open>override\<close> pairwise
  different, as in every dictionary), in the merged dictionary a key that \<open>override\<close>
  does not have keeps what \<open>base\<close> has for it; a key only \<open>override\<close> has gets
  \<open>override\<close>'s val; a key both have with a dictionary on both sides gets the merge
  of the two dictionaries by the same function; a key both have where either side is
  not a dictionary gets \<open>override\<close>'s val; the keys of the result are those of the
  two; and merging with the empty dictionary gives \<open>base\<close> back.
\<close>

theorem deep_merge_key_by_key:
  assumes "distinct (map fst override)"
  shows "(k \<notin> fst ` set override \<longrightarrow> map_of (deep_merge base override) k = map_of base k)
       \<and> (\<forall>v. (k, v) \<in> set override \<and> map_of base k = None \<longrightarrow>
            map_of (deep_merge base override) k = Some v)
       \<and> (\<forall>b v. map_of base k = Some (Dict b) \<and> (k, Dict v) \<in> set override \<longrightarrow>
            map_of (deep_merge base override) k = Some (Dict (deep_merge b v)))
       \<and> (\<forall>old v. map_of base k = Some old \<and> (k, v) \<in> set override
              \<and> ((\<exists>x. old = Leaf x) \<or> (\<exists>x. v = Leaf x)) \<longrightarrow>
            map_of (deep_merge base override) k = Some v)
       \<and> fst ` set (deep_merge base override) = fst ` set base \<union> fst ` set override
       \<and> deep_merge base [] = base"
proof (intro conjI allI impI)
  assume "k \<notin> fst ` set override"
  then show "map_of (deep_merge base override) k = map_of base k"
    by (rule deep_merge_other_key)
next
  fix v assume "(k, v) \<in> set override \<and> map_of base k = None"
  with deep_merge_override_key [OF assms, of k v base]
  show "map_of (deep_merge base override) k = Some v" by simp
next
  fix b v assume "map_of base k = Some (Dict b) \<and> (k, Dict v) \<in> set override"
  with deep_merge_override_key [OF assms, of k "Dict v" base]
  show "map_of (deep_merge base override) k = Some (Dict (deep_merge b v))" by simp
next
  fix old v
  assume a: "map_of base k = Some old \<and> (k, v) \<in> set override
      \<and> ((\<exists>x. old = Leaf x) \<or> (\<exists>x. v = Leaf x))"
  then have "merged_value (Some old) v = v"
    by (cases old; cases v) auto
  with a deep_merge_override_key [OF assms, of k v base]
  show "map_of (deep_merge base override) k = Some v" by simp
next
  show "fst ` set (deep_merge base override) = fst ` set base \<union> fst ` set override"
    by (rule deep_merge_keys)
next
  show "deep_merge base [] = base" by simp
qed

lemma demo_merge:
  "deep_merge demo_base demo_override =
     [(''data'', Dict [(''format'', Leaf ''parquet''), (''test_size'', Leaf ''0.2'')]),
      (''environment'', Leaf ''dev''),
      (''model'', Dict [(''type'', Leaf ''regression'')]),
      (''aws_region'', Leaf ''eu-west-1'')]"
  by (simp add: demo_base_def demo_override_def)

theorem deep_merge_key_by_key_witness:
  "distinct (map fst demo_override)
   \<and> map_of (deep_merge demo_base demo_override) ''environment'' = Some (Leaf ''dev'')
   \<and> map_of (deep_merge demo_base demo_override) ''aws_region'' = Some (Leaf ''eu-west-1'')
   \<and> map_of (deep_merge demo_base demo_override) ''data'' =
       Some (Dict [(''format'', Leaf ''parquet''), (''test_size'', Leaf ''0.2'')])
   \<and> map_of (deep_merge demo_base demo_override) ''model'' =
       Some (Dict [(''type'', Leaf ''regression'')])"
proof -
  have d: "distinct (map fst demo_override)" by (simp add: demo_override_def)
  note T = deep_merge_key_by_key [OF d, where base = demo_base]
  have 1: "map_of (deep_merge demo_base demo_override) ''environment'' = Some (Leaf ''dev'')"
  proof -
    have "''environment'' \<notin> fst ` set demo_override" by (simp add: demo_override_def)
    from T [where k = "''environment''", THEN conjunct1, rule_format, OF this]
    show ?thesis by (simp add: demo_base_def)
  qed
  have 2: "map_of (deep_merge demo_base demo_override) ''aws_region'' = Some (Leaf ''eu-west-1'')"
  proof -
    have "(''aws_region'', Leaf ''eu-west-1'') \<in> set demo_override
        \<and> map_of demo_base ''aws_region'' = None"
      by (simp add: demo_override_def demo_base_def)
    from T [where k = "''aws_region''", THEN conjunct2, THEN conjunct1, rule_format, OF this]
    show ?thesis .
  qed
  have 3: "map_of (deep_merge demo_base demo_override) ''data'' =
       Some (Dict [(''format'', Leaf ''parquet''), (''test_size'', Leaf ''0.2'')])"
  proof -
    have "map_of demo_base ''data'' = Some (Dict [(''format'', Leaf ''csv''), (''test_size'', Leaf ''0.2'')])
        \<and> (''data'', Dict [(''format'', Leaf ''parquet'')]) \<in> set demo_override"
      by (simp add: demo_override_def demo_base_def)
    from T [where k = "''data''", THEN conjunct2, THEN conjunct2, THEN conjunct1, rule_format, OF this]
    show ?thesis by simp
  qed
  have 4: "map_of (deep_merge demo_base demo_override) ''model'' =
       Some (Dict [(''type'', Leaf ''regression'')])"
  proof -
    have "map_of demo_base ''model'' = Some (Leaf ''default'')
        \<and> (''model'', Dict [(''type'', Leaf ''regression'')]) \<in> set demo_override
        \<and> ((\<exists>x. Leaf ''default'' = Leaf (x :: string)) \<or> (\<exists>x. Dict [(''type'', Leaf ''regression'')] = Leaf (x :: string)))"
      by (simp add: demo_override_def demo_base_def)
    from T [where k = "''model''", THEN conjunct2, THEN conjunct2, THEN conjunct2, THEN conjunct1,
        rule_format, OF this]
    show ?thesis .
  qed
  from d 1 2 3 4 show ?thesis by blast
qed

subsection \<open>Three-way split\<close>

lemmas float_eval =
  float_sub_def float_truediv_def float_mul_def float_of_nat_def float_literal_def
  round64_def scale_down.simps scale_up.simps round_half_even_def pow2_def Let_def

lemma float_literals:
  "float_literal 0.2 = 3602879701896397 / 18014398509481984"
  "float_literal 0.1 = 3602879701896397 / 36028797018963968"
  "float_literal 0.3 = 5404319552844595 / 18014398509481984"
  "float_literal 0.07 = 1261007895663739 / 18014398509481984"
  by (simp_all add: float_eval)

lemma float_literals_nf:
  "float_literal (1 / 5) = 3602879701896397 / 18014398509481984"
  "float_literal (1 / 10) = 3602879701896397 / 36028797018963968"
  "float_literal (3 / 10) = 5404319552844595 / 18014398509481984"
  "float_literal (7 / 100) = 1261007895663739 / 18014398509481984"
  by (simp_all add: float_eval)

text \<open>
  The float operations on the fractions 0.3 and 0.1 and on 0.07: the adjusted fraction
  \<^verbatim>\<open>0.1 / (1 - 0.3)\<close> is \<^verbatim>\<open>0.14285714285714288\<close>, its product with 7 is
  \<^verbatim>\<open>1.0000000000000002\<close>, and \<^verbatim>\<open>0.07 * 100\<close> is \<^verbatim>\<open>7.000000000000001\<close>.
\<close>

lemma float_examples:
  "float_sub 1 (float_literal 0.3) = 3152519739159347 / 4503599627370496"
  "float_truediv (float_literal 0.1) (float_sub 1 (float_literal 0.3))
     = Inr (5146971002709139 / 36028797018963968)"
  "float_mul (5146971002709139 / 36028797018963968) (float_of_nat 7)
     = 4503599627370497 / 4503599627370496"
  "float_mul (float_literal 0.07) (float_of_nat 100) = 7881299347898369 / 1125899906842624"
  "float_mul (float_literal 0.2) (float_of_nat 7) = 6305039478318695 / 4503599627370496"
  by (simp_all add: float_eval)

lemma train_test_split_Inr:
  assumes "permutes shuffle"
      and "train_test_split shuffle rows test_size' seed stratify = Inr (train, test)"
  shows "mset train + mset test = mset rows"
    and "length test = nat \<lceil>float_mul test_size' (float_of_nat (length rows))\<rceil>"
    and "length train = length rows - length test"
    and "length test < length rows"
    and "0 < test_size'" and "test_size' < 1"
proof -
  let ?n_test = "nat \<lceil>float_mul test_size' (float_of_nat (length rows))\<rceil>"
  from assms(2) have range: "0 < test_size' \<and> test_size' < 1"
    by (auto simp add: train_test_split_def split: if_splits)
  from assms(2) range have ne: "length rows - ?n_test \<noteq> 0"
    by (auto simp add: train_test_split_def Let_def split: if_splits)
  from assms(2) range ne obtain permuted where
    p: "shuffle seed stratify rows = Inr permuted"
    and tr: "train = drop ?n_test permuted" and te: "test = take ?n_test permuted"
    by (auto simp add: train_test_split_def Let_def split: if_splits sum.splits)
  from assms(1) p have m: "mset permuted = mset rows" unfolding permutes_def by blast
  then have len: "length permuted = length rows" by (rule mset_eq_length)
  have "mset train + mset test = mset (take ?n_test permuted @ drop ?n_test permuted)"
    unfolding tr te by (simp only: mset_append add.commute)
  then show "mset train + mset test = mset rows" using m by (simp only: append_take_drop_id)
  from ne have lt: "?n_test < length rows" by simp
  then show "length test = ?n_test" unfolding te using len by simp
  then show "length train = length rows - length test" unfolding tr using len by simp
  from lt \<open>length test = ?n_test\<close> show "length test < length rows" by simp
  from range show "0 < test_size'" "test_size' < 1" by simp_all
qed

lemma split_data_Inr:
  assumes "split_data shuffle config rows = Inr (train, val, test)"
  obtains data_config temp stratify where
    "pc_data config = Some data_config"
    "train_test_split shuffle rows (dict_get (sec_test_size data_config) (float_literal 0.2))
       42 stratify = Inr (temp, test)"
    "train_test_split shuffle temp
       (round64 (dict_get (sec_validation_size data_config) (float_literal 0.1)
          / float_sub 1 (dict_get (sec_test_size data_config) (float_literal 0.2))))
       42 stratify = Inr (train, val)"
  using assms
  by (auto simp add: split_data_def Let_def float_truediv_def
      split: option.splits sum.splits if_splits prod.splits)

lemma train_test_split_returns:
  assumes "shuffle seed stratify rows = Inr permuted" and "length permuted = length rows"
      and "0 < fraction" and "fraction < 1"
      and "nat \<lceil>float_mul fraction (float_of_nat (length rows))\<rceil> < length rows"
  shows "train_test_split shuffle rows fraction seed stratify =
           Inr (drop (nat \<lceil>float_mul fraction (float_of_nat (length rows))\<rceil>) permuted,
                take (nat \<lceil>float_mul fraction (float_of_nat (length rows))\<rceil>) permuted)"
  using assms by (simp add: train_test_split_def Let_def)

text \<open>
  When \<^verbatim>\<open>split_data\<close> returns: the shuffle returns, the fractions as the floats compute
  them lie between 0 and 1, and each of the two splits leaves a row for its train part.
\<close>

lemma split_data_returns:
  assumes sh: "\<forall>seed stratify xs. \<exists>ys. shuffle seed stratify xs = Inr ys \<and> length ys = length xs"
      and cfg: "pc_data config = Some data_config" "pc_model config = Some model"
               "sec_type model = Some mtype"
               "dict_get (sec_test_size data_config) (float_literal 0.2) = t"
               "dict_get (sec_validation_size data_config) (float_literal 0.1) = v"
      and frac: "0 < t" "t < 1" "float_sub 1 t \<noteq> 0"
                "0 < round64 (v / float_sub 1 t)" "round64 (v / float_sub 1 t) < 1"
      and enough: "nat \<lceil>float_mul t (float_of_nat (length rows))\<rceil> < length rows"
                  "nat \<lceil>float_mul (round64 (v / float_sub 1 t))
                          (float_of_nat (length rows
                             - nat \<lceil>float_mul t (float_of_nat (length rows))\<rceil>))\<rceil>
                     < length rows - nat \<lceil>float_mul t (float_of_nat (length rows))\<rceil>"
  shows "\<exists>train val test. split_data shuffle config rows = Inr (train, val, test)"
proof -
  let ?s = "mtype = ''classification''"
  let ?k = "nat \<lceil>float_mul t (float_of_nat (length rows))\<rceil>"
  let ?a = "round64 (v / float_sub 1 t)"
  from sh obtain p1 where p1: "shuffle 42 ?s rows = Inr p1" "length p1 = length rows" by blast
  have s1: "train_test_split shuffle rows t 42 ?s = Inr (drop ?k p1, take ?k p1)"
    using p1 frac(1,2) enough(1) by (rule train_test_split_returns)
  let ?temp = "drop ?k p1"
  have lt: "length ?temp = length rows - ?k" using p1(2) by simp
  from sh obtain p2 where p2: "shuffle 42 ?s ?temp = Inr p2" "length p2 = length ?temp" by blast
  have e2: "nat \<lceil>float_mul ?a (float_of_nat (length ?temp))\<rceil> < length ?temp"
    using enough(2) unfolding lt .
  have s2: "train_test_split shuffle ?temp ?a 42 ?s =
      Inr (drop (nat \<lceil>float_mul ?a (float_of_nat (length ?temp))\<rceil>) p2,
           take (nat \<lceil>float_mul ?a (float_of_nat (length ?temp))\<rceil>) p2)"
    using p2 frac(4,5) e2 by (rule train_test_split_returns)
  show ?thesis
    using cfg s1 s2 frac(3) by (simp add: split_data_def Let_def float_truediv_def)
qed

text \<open>
  C7 (amended). With configured fractions \<open>0 < t < 1\<close> and \<open>0 < v < 1 - t\<close> and a shuffle
  that only reorders, whenever \<open>split_data\<close> returns, the three parts together contain
  every input row exactly once (so they are pairwise disjoint when the rows are
  distinct) and their shares of the original \<open>n\<close> rows add up to 1; the test part has
  \<^verbatim>\<open>ceil(t * n)\<close> rows, the validation part \<^verbatim>\<open>ceil(v / (1 - t) * (n - n_test))\<close> rows,
  both computed in float arithmetic, and the train part has the rest. Because the
  parts are whole rows and the products are rounded floats, the validation share
  need not equal \<open>v\<close>, not even when \<open>t \<cdot> n\<close> and \<open>v \<cdot> n\<close> are whole numbers.
\<close>

theorem split_data_amended:
  assumes perm: "permutes shuffle"
      and cfg: "pc_data config = Some data_config"
               "dict_get (sec_test_size data_config) (float_literal 0.2) = t"
               "dict_get (sec_validation_size data_config) (float_literal 0.1) = v"
      and frac: "0 < t" "t < 1" "0 < v" "v < 1 - t"
      and res: "split_data shuffle config rows = Inr (train, val, test)"
  shows "mset train + mset val + mset test = mset rows
       \<and> (distinct rows \<longrightarrow> distinct (train @ val @ test))
       \<and> length test = nat \<lceil>float_mul t (float_of_nat (length rows))\<rceil>
       \<and> length val = nat \<lceil>float_mul (round64 (v / float_sub 1 t))
                                 (float_of_nat (length rows - length test))\<rceil>
       \<and> length train = length rows - length test - length val
       \<and> 0 < length train
       \<and> share train rows + share val rows + share test rows = 1"
proof -
  from res obtain dc temp stratify where
    dc: "pc_data config = Some dc"
    and s1: "train_test_split shuffle rows (dict_get (sec_test_size dc) (float_literal 0.2))
       42 stratify = Inr (temp, test)"
    and s2: "train_test_split shuffle temp
       (round64 (dict_get (sec_validation_size dc) (float_literal 0.1)
          / float_sub 1 (dict_get (sec_test_size dc) (float_literal 0.2))))
       42 stratify = Inr (train, val)"
    by (rule split_data_Inr)
  from dc cfg have s1': "train_test_split shuffle rows t 42 stratify = Inr (temp, test)"
    and s2': "train_test_split shuffle temp (round64 (v / float_sub 1 t)) 42 stratify
                = Inr (train, val)"
    using s1 s2 by simp_all
  note a = train_test_split_Inr [OF perm s1']
  note b = train_test_split_Inr [OF perm s2']
  let ?n = "length rows"
  have m: "mset train + mset val + mset test = mset rows"
    using a(1) b(1) by simp
  have d: "distinct rows \<longrightarrow> distinct (train @ val @ test)"
  proof
    assume dr: "distinct rows"
    have "mset (train @ val @ test) = mset rows" using m by (simp add: add.assoc)
    from mset_eq_imp_distinct_iff [OF this] dr show "distinct (train @ val @ test)" by simp
  qed
  have lt: "length test = nat \<lceil>float_mul t (float_of_nat ?n)\<rceil>" by (rule a(2))
  have ltemp: "length temp = ?n - length test" by (rule a(3))
  have lv: "length val = nat \<lceil>float_mul (round64 (v / float_sub 1 t))
                                 (float_of_nat (?n - length test))\<rceil>"
    using b(2) ltemp by simp
  have ltr: "length train = ?n - length test - length val"
    using b(3) ltemp by simp
  have pos: "0 < length train" using b(3,4) by simp
  have "length train + length val + length test = ?n"
    using ltr pos by simp
  then have "real (length train) + real (length val) + real (length test) = real ?n"
    by (metis of_nat_add)
  moreover have "0 < real ?n" using a(4) by (cases rows) simp_all
  ultimately have sh: "share train rows + share val rows + share test rows = 1"
    by (simp add: share_def add_divide_distrib [symmetric])
  from m d lt lv ltr pos sh show ?thesis by blast
qed

lemma rev_shuffle_permutes: "permutes rev_shuffle"
  by (simp add: permutes_def rev_shuffle_def)

lemma train_test_split_rev:
  assumes "0 < fraction" and "fraction < 1"
      and "nat \<lceil>float_mul fraction (float_of_nat (length rows))\<rceil> = k" and "k < length rows"
  shows "train_test_split rev_shuffle rows fraction seed stratify =
           Inr (drop k (rev rows), take k (rev rows))"
  using assms by (simp add: train_test_split_def Let_def rev_shuffle_def)

lemma split_data_steps:
  assumes "pc_data config = Some data_config" and "pc_model config = Some model"
      and "sec_type model = Some mtype"
      and "dict_get (sec_test_size data_config) (float_literal 0.2) = t"
      and "dict_get (sec_validation_size data_config) (float_literal 0.1) = v"
      and "train_test_split shuffle rows t 42 (mtype = ''classification'') = Inr (temp, test)"
      and "float_truediv v (float_sub 1 t) = Inr adjusted"
      and "train_test_split shuffle temp adjusted 42 (mtype = ''classification'')
             = Inr (train, val)"
  shows "split_data shuffle config rows = Inr (train, val, test)"
  using assms by (simp add: split_data_def Let_def)

lemma split_config_fields:
  "pc_data (split_config t v)
     = Some \<lparr>sec_test_size = Some (float_literal t), sec_validation_size = Some (float_literal v)\<rparr>"
  "pc_model (split_config t v) = Some \<lparr>sec_type = Some ''regression''\<rparr>"
  by (simp_all add: split_config_def)

lemma default_adjusted:
  "float_truediv (float_literal 0.1) (float_sub 1 (float_literal 0.2)) = Inr (1 / 8)"
  by (simp add: float_eval)

lemma default_counts:
  "nat \<lceil>float_mul (float_literal 0.2) (float_of_nat 10)\<rceil> = 2"
  "nat \<lceil>float_mul (1 / 8) (float_of_nat 8)\<rceil> = 1"
  "nat \<lceil>float_mul (float_literal 0.2) (float_of_nat 7)\<rceil> = 2"
  "nat \<lceil>float_mul (1 / 8) (float_of_nat 5)\<rceil> = 1"
  by (simp_all add: float_eval)

lemmas default_counts_nf = default_counts [simplified]

lemma ten_rows_length: "length ten_rows = 10" "length (drop 2 (rev ten_rows)) = 8"
  "length (drop 3 (rev ten_rows)) = 7"
  by (simp_all add: ten_rows_def)

lemma seven_rows_length: "length seven_rows = 7" "length (drop 2 (rev seven_rows)) = 5"
  by (simp_all add: seven_rows_def)

lemma default_range:
  "0 < float_literal 0.2" "float_literal 0.2 < 1" "0 < float_literal 0.1"
  "float_literal 0.1 < 1 - float_literal 0.2" "0 < float_literal 0.3" "float_literal 0.3 < 1"
  by (simp_all add: float_literals_nf)

lemma split_ten:
  "split_data rev_shuffle default_split_config ten_rows =
     Inr ([(1, 6), (2, 5), (3, 7), (4, 5), (5, 6), (6, 5), (7, 7)], [(0, 5)], [(9, 6), (8, 5)])"
proof -
  let ?s = "''regression'' = ''classification''"
  have s1: "train_test_split rev_shuffle ten_rows (float_literal 0.2) 42 ?s =
      Inr (drop 2 (rev ten_rows), take 2 (rev ten_rows))"
    by (rule train_test_split_rev [OF default_range(1,2)])
      (simp_all add: ten_rows_length default_counts_nf)
  have s2: "train_test_split rev_shuffle (drop 2 (rev ten_rows)) (1 / 8) 42 ?s =
      Inr (drop 1 (rev (drop 2 (rev ten_rows))), take 1 (rev (drop 2 (rev ten_rows))))"
    by (rule train_test_split_rev) (simp_all add: ten_rows_length default_counts_nf)
  have "split_data rev_shuffle default_split_config ten_rows =
      Inr (drop 1 (rev (drop 2 (rev ten_rows))), take 1 (rev (drop 2 (rev ten_rows))),
           take 2 (rev ten_rows))"
    unfolding default_split_config_def
    by (rule split_data_steps [OF split_config_fields _ _ _ s1 default_adjusted s2])
      (simp_all add: dict_get_def)
  then show ?thesis by (simp add: ten_rows_def)
qed

lemma split_seven:
  "split_data rev_shuffle default_split_config seven_rows =
     Inr ([(1, 6), (2, 5), (3, 7), (4, 5)], [(0, 5)], [(6, 5), (5, 6)])"
proof -
  let ?s = "''regression'' = ''classification''"
  have s1: "train_test_split rev_shuffle seven_rows (float_literal 0.2) 42 ?s =
      Inr (drop 2 (rev seven_rows), take 2 (rev seven_rows))"
    by (rule train_test_split_rev [OF default_range(1,2)])
      (simp_all add: seven_rows_length default_counts_nf)
  have s2: "train_test_split rev_shuffle (drop 2 (rev seven_rows)) (1 / 8) 42 ?s =
      Inr (drop 1 (rev (drop 2 (rev seven_rows))), take 1 (rev (drop 2 (rev seven_rows))))"
    by (rule train_test_split_rev) (simp_all add: seven_rows_length default_counts_nf)
  have "split_data rev_shuffle default_split_config seven_rows =
      Inr (drop 1 (rev (drop 2 (rev seven_rows))), take 1 (rev (drop 2 (rev seven_rows))),
           take 2 (rev seven_rows))"
    unfolding default_split_config_def
    by (rule split_data_steps [OF split_config_fields _ _ _ s1 default_adjusted s2])
      (simp_all add: dict_get_def)
  then show ?thesis by (simp add: seven_rows_def)
qed

lemma counts_03:
  "nat \<lceil>float_mul (float_literal 0.3) (float_of_nat 10)\<rceil> = 3"
  "nat \<lceil>float_mul (5146971002709139 / 36028797018963968) (float_of_nat 7)\<rceil> = 2"
  by (simp_all add: float_eval)

lemmas counts_03_nf = counts_03 [simplified]

lemma split_ten_03:
  "split_data rev_shuffle (split_config 0.3 0.1) ten_rows =
     Inr ([(2, 5), (3, 7), (4, 5), (5, 6), (6, 5)], [(0, 5), (1, 6)], [(9, 6), (8, 5), (7, 7)])"
proof -
  let ?s = "''regression'' = ''classification''"
  have s1: "train_test_split rev_shuffle ten_rows (float_literal 0.3) 42 ?s =
      Inr (drop 3 (rev ten_rows), take 3 (rev ten_rows))"
    by (rule train_test_split_rev [OF default_range(5,6)])
      (simp_all add: ten_rows_length counts_03_nf)
  have s2: "train_test_split rev_shuffle (drop 3 (rev ten_rows))
      (5146971002709139 / 36028797018963968) 42 ?s =
      Inr (drop 2 (rev (drop 3 (rev ten_rows))), take 2 (rev (drop 3 (rev ten_rows))))"
    by (rule train_test_split_rev) (simp_all add: ten_rows_length counts_03_nf)
  have "split_data rev_shuffle (split_config 0.3 0.1) ten_rows =
      Inr (drop 2 (rev (drop 3 (rev ten_rows))), take 2 (rev (drop 3 (rev ten_rows))),
           take 3 (rev ten_rows))"
    by (rule split_data_steps [OF split_config_fields _ _ _ s1 float_examples(2) s2])
      (simp_all add: dict_get_def)
  then show ?thesis by (simp add: ten_rows_def)
qed

theorem split_data_amended_witness:
  "permutes (rev_shuffle :: nat \<Rightarrow> bool \<Rightarrow> (nat \<times> nat) list \<Rightarrow> exn + (nat \<times> nat) list)
   \<and> split_data rev_shuffle default_split_config ten_rows =
       Inr ([(1, 6), (2, 5), (3, 7), (4, 5), (5, 6), (6, 5), (7, 7)], [(0, 5)], [(9, 6), (8, 5)])
   \<and> mset [(1, 6), (2, 5), (3, 7), (4, 5), (5, 6), (6, 5), (7, 7)] + mset [(0, 5)]
         + mset [(9, 6), (8, 5)] = mset ten_rows
   \<and> length ([(9, 6), (8, 5)] :: (nat \<times> nat) list)
       = nat \<lceil>float_mul (float_literal 0.2) (float_of_nat (length ten_rows))\<rceil>
   \<and> share [(1, 6), (2, 5), (3, 7), (4, 5), (5, 6), (6, 5), (7, 7)] ten_rows
       + share [(0, 5)] ten_rows + share [(9, 6), (8, 5)] ten_rows = 1"
proof -
  let ?dc = "\<lparr>sec_test_size = Some (float_literal 0.2),
              sec_validation_size = Some (float_literal 0.1)\<rparr>"
  have c: "pc_data default_split_config = Some ?dc"
    "dict_get (sec_test_size ?dc) (float_literal 0.2) = float_literal 0.2"
    "dict_get (sec_validation_size ?dc) (float_literal 0.1) = float_literal 0.1"
    by (simp_all add: default_split_config_def split_config_def dict_get_def)
  note T = split_data_amended [OF rev_shuffle_permutes c default_range(1-4) split_ten]
  from T have m: "mset [(1, 6), (2, 5), (3, 7), (4, 5), (5, 6), (6, 5), (7, 7)] + mset [(0, 5)]
         + mset [(9, 6), (8, 5)] = mset ten_rows"
    by (rule conjunct1)
  note l = T [THEN conjunct2, THEN conjunct2, THEN conjunct1]
  note s = T [THEN conjunct2, THEN conjunct2, THEN conjunct2, THEN conjunct2, THEN conjunct2,
      THEN conjunct2]
  show ?thesis by (intro conjI) (fact rev_shuffle_permutes split_ten m l s)+
qed

theorem split_data_share_counterexample:
  "permutes (rev_shuffle :: nat \<Rightarrow> bool \<Rightarrow> (nat \<times> nat) list \<Rightarrow> exn + (nat \<times> nat) list)
   \<and> split_data rev_shuffle default_split_config seven_rows =
       Inr ([(1, 6), (2, 5), (3, 7), (4, 5)], [(0, 5)], [(6, 5), (5, 6)])
   \<and> share [(0, 5)] seven_rows \<noteq> float_literal 0.1
   \<and> share [(0, 5)] seven_rows \<noteq> 0.1
   \<and> share [(1, 6), (2, 5), (3, 7), (4, 5)] seven_rows \<noteq> 1 - float_literal 0.2 - float_literal 0.1
   \<and> share [(1, 6), (2, 5), (3, 7), (4, 5)] seven_rows \<noteq> 1 - 0.2 - 0.1
   \<and> split_data rev_shuffle (split_config 0.3 0.1) ten_rows =
       Inr ([(2, 5), (3, 7), (4, 5), (5, 6), (6, 5)], [(0, 5), (1, 6)], [(9, 6), (8, 5), (7, 7)])
   \<and> share [(0, 5), (1, 6)] ten_rows \<noteq> float_literal 0.1
   \<and> share [(0, 5), (1, 6)] ten_rows \<noteq> 0.1"
proof -
  have n1: "share [(0, 5)] seven_rows \<noteq> float_literal 0.1"
    by (simp add: share_def seven_rows_def float_literals_nf)
  have n2: "share [(0, 5)] seven_rows \<noteq> 0.1"
    by (simp add: share_def seven_rows_def)
  have n3: "share [(1, 6), (2, 5), (3, 7), (4, 5)] seven_rows
      \<noteq> 1 - float_literal 0.2 - float_literal 0.1"
    by (simp add: share_def seven_rows_def float_literals_nf)
  have n4: "share [(1, 6), (2, 5), (3, 7), (4, 5)] seven_rows \<noteq> 1 - 0.2 - 0.1"
    by (simp add: share_def seven_rows_def)
  have n5: "share [(0, 5), (1, 6)] ten_rows \<noteq> float_literal 0.1"
    by (simp add: share_def ten_rows_def float_literals_nf)
  have n6: "share [(0, 5), (1, 6)] ten_rows \<noteq> 0.1"
    by (simp add: share_def ten_rows_def)
  show ?thesis
    by (intro conjI) (fact rev_shuffle_permutes split_seven split_ten_03 n1 n2 n3 n4 n5 n6)+
qed

end
